theory Spec2Isabelle
  imports Complex_Main "HOL-Library.Sublist" "HOL-Library.AList"
begin

section \<open>Python values used by the trading bot\<close>

text \<open>
  Python floats are modelled as \<^typ>\<open>real\<close>: the arithmetic of the model is exact, and
  infinities and NaN do not occur. Python integers are \<^typ>\<open>int\<close>. An exception is a
  value of \<open>py_error\<close>, returned as \<open>Inl\<close>.
\<close>

datatype py_error =
    ZeroDivisionError
  | ValueError
  | KeyError
  | RuntimeError string

text \<open>Float division \<open>a / b\<close>: Python raises \<open>ZeroDivisionError\<close> when \<open>b\<close> is zero.\<close>

definition py_truediv :: "real \<Rightarrow> real \<Rightarrow> py_error + real" where
  "py_truediv a b = (if b = 0 then Inl ZeroDivisionError else Inr (a / b))"

text \<open>Truthiness of an \<open>Optional[str]\<close>: \<open>None\<close> and the empty string are false.\<close>

definition truthy_str :: "string option \<Rightarrow> bool" where
  "truthy_str p = (case p of None \<Rightarrow> False | Some s \<Rightarrow> s \<noteq> [])"

subsection \<open>String formatting\<close>

text \<open>
  \<open>str(n)\<close> for an integer, and the fixed-point format \<open>"{:.df}"\<close>: the value is rounded
  to \<open>d\<close> decimals (a tie goes to the even neighbour, as correct rounding of the exact
  value does) and printed with a sign, the integer digits, and \<open>d\<close> zero-padded decimals.
\<close>

definition round_half_even :: "real \<Rightarrow> int" where
  "round_half_even r =
     (let f = \<lfloor>r\<rfloor>; d = r - of_int f
      in if d < 1 / 2 then f else if 1 / 2 < d then f + 1 else if even f then f else f + 1)"

function digits :: "int \<Rightarrow> string" where
  "digits n =
     (if n < 10 then [''0123456789'' ! nat n]
      else digits (n div 10) @ [''0123456789'' ! nat (n mod 10)])"
  by pat_completeness auto
termination
  by (relation "measure nat") auto

declare digits.simps [simp del]

definition str_int :: "int \<Rightarrow> string" where
  "str_int i = (if i < 0 then ''-'' @ digits (- i) else digits i)"

definition zero_pad :: "nat \<Rightarrow> string \<Rightarrow> string" where
  "zero_pad w s = replicate (w - length s) (CHR ''0'') @ s"

definition format_fixed :: "nat \<Rightarrow> real \<Rightarrow> string" where
  "format_fixed d x =
     (let n = round_half_even (\<bar>x\<bar> * 10 ^ d);
          body = digits (n div 10 ^ d) @
                 (if d = 0 then [] else ''.'' @ zero_pad d (digits (n mod 10 ^ d)))
      in if x < 0 then ''-'' @ body else body)"

text \<open>
  \<open>float(f"{x:.df}")\<close>: the number the formatted string denotes, that is \<open>x\<close> rounded
  to \<open>d\<close> decimals.
\<close>

definition round_fixed :: "nat \<Rightarrow> real \<Rightarrow> real" where
  "round_fixed d x =
     (let n = of_int (round_half_even (\<bar>x\<bar> * 10 ^ d)) / 10 ^ d
      in if x < 0 then - n else n)"

section \<open>The risk engine (\<open>app/risk/risk_engine.py\<close>)\<close>

text \<open>
  What the engine reads from outside: the UTC date of the wall clock, formatted
  \<open>YYYY-MM-DD\<close>, and the set of paths for which \<open>os.path.exists\<close> holds.
\<close>

record world =
  utc_day :: string
  files :: "string set"

record RiskDecision =
  allowed :: bool
  reason :: string

record RiskEngine =
  fail_closed :: bool
  pause_file :: string
  kill_file :: string
  max_notional_usd_per_trade :: real
  max_trades_per_day :: int
  max_trades_per_day_per_pair :: int
  max_daily_loss_usd :: real
  max_drawdown_usd :: real
  day_key :: string
  trades_today :: int
  trades_today_by_pair :: "string \<rightharpoonup> int"
  portfolio_realized :: real
  portfolio_max_dd :: real
  pause_reason :: "string option"

text \<open>The configuration entries \<open>__init__\<close> reads; \<open>None\<close> is an absent key.\<close>

record risk_cfg =
  cfg_fail_closed :: "bool option"
  cfg_pause_file :: "string option"
  cfg_kill_switch_file :: "string option"
  cfg_max_notional_usd_per_trade :: "real option"
  cfg_max_trades_per_day :: "int option"
  cfg_max_trades_per_day_per_pair :: "int option"
  cfg_max_daily_loss_usd :: "real option"
  cfg_max_drawdown_usd :: "real option"

definition get_default :: "'a option \<Rightarrow> 'a \<Rightarrow> 'a" where
  "get_default v d = (case v of None \<Rightarrow> d | Some x \<Rightarrow> x)"

definition RiskEngine_init :: "world \<Rightarrow> risk_cfg \<Rightarrow> RiskEngine" where
  "RiskEngine_init w cfg =
     (let mtd = get_default (cfg_max_trades_per_day cfg) 3 in
      \<lparr> fail_closed = get_default (cfg_fail_closed cfg) True,
        pause_file = get_default (cfg_pause_file cfg) ''/run/trading/PAUSE'',
        kill_file = get_default (cfg_kill_switch_file cfg) ''/run/trading/KILL_SWITCH'',
        max_notional_usd_per_trade = get_default (cfg_max_notional_usd_per_trade cfg) 20,
        max_trades_per_day = mtd,
        max_trades_per_day_per_pair = get_default (cfg_max_trades_per_day_per_pair cfg) mtd,
        max_daily_loss_usd = get_default (cfg_max_daily_loss_usd cfg) 0,
        max_drawdown_usd = get_default (cfg_max_drawdown_usd cfg) 0,
        day_key = utc_day w,
        trades_today = 0,
        trades_today_by_pair = Map.empty,
        portfolio_realized = 0,
        portfolio_max_dd = 0,
        pause_reason = None \<rparr>)"

definition roll_day_if_needed :: "world \<Rightarrow> RiskEngine \<Rightarrow> RiskEngine" where
  "roll_day_if_needed w s =
     (let dk = utc_day w
      in if dk \<noteq> day_key s
         then s\<lparr>day_key := dk, trades_today := 0, trades_today_by_pair := Map.empty\<rparr>
         else s)"

definition kill_switch_active :: "world \<Rightarrow> RiskEngine \<Rightarrow> bool" where
  "kill_switch_active w s = (kill_file s \<in> files w)"

definition paused :: "world \<Rightarrow> RiskEngine \<Rightarrow> bool" where
  "paused w s = (pause_file s \<in> files w \<or> pause_reason s \<noteq> None)"

definition get_pause_reason :: "world \<Rightarrow> RiskEngine \<Rightarrow> string" where
  "get_pause_reason w s =
     (if truthy_str (pause_reason s) then the (pause_reason s)
      else if pause_file s \<in> files w then ''pause file present: '' @ pause_file s
      else [])"

text \<open>
  \<open>_touch_pause\<close> records the reason in memory and tries to write the pause file; a
  failed write is swallowed. \<open>write_ok\<close> says whether the write succeeds.
\<close>

definition touch_pause :: "bool \<Rightarrow> string \<Rightarrow> RiskEngine \<times> world \<Rightarrow> RiskEngine \<times> world" where
  "touch_pause write_ok r sw =
     (case sw of (s, w) \<Rightarrow>
        (s\<lparr>pause_reason := Some r\<rparr>,
         if write_ok then w\<lparr>files := insert (pause_file s) (files w)\<rparr> else w))"

definition update_portfolio_metrics ::
    "bool \<Rightarrow> real \<Rightarrow> real \<Rightarrow> RiskEngine \<times> world \<Rightarrow> RiskEngine \<times> world" where
  "update_portfolio_metrics write_ok realized_pnl_usd max_dd_usd sw =
     (case sw of (s0, w) \<Rightarrow>
        (let s = s0\<lparr>portfolio_realized := realized_pnl_usd, portfolio_max_dd := max_dd_usd\<rparr>
         in if 0 < max_daily_loss_usd s \<and> portfolio_realized s \<le> - max_daily_loss_usd s
            then touch_pause write_ok
                   (''circuit breaker: realized pnl '' @ format_fixed 6 (portfolio_realized s)
                      @ '' <= -'' @ format_fixed 6 (max_daily_loss_usd s)) (s, w)
            else if 0 < max_drawdown_usd s \<and> max_drawdown_usd s \<le> portfolio_max_dd s
            then touch_pause write_ok
                   (''circuit breaker: max drawdown '' @ format_fixed 6 (portfolio_max_dd s)
                      @ '' >= '' @ format_fixed 6 (max_drawdown_usd s)) (s, w)
            else (s, w)))"

definition can_trade ::
    "world \<Rightarrow> RiskEngine \<Rightarrow> real \<Rightarrow> string \<Rightarrow> string option \<Rightarrow> RiskEngine \<times> RiskDecision" where
  "can_trade w s0 notional_usd mode pair =
     (let s = roll_day_if_needed w s0 in
      if kill_switch_active w s
      then (s, \<lparr>allowed = False, reason = ''kill switch active''\<rparr>)
      else if paused w s
      then (s, \<lparr>allowed = False, reason = ''paused: '' @ get_pause_reason w s\<rparr>)
      else if max_notional_usd_per_trade s < notional_usd
      then (s, \<lparr>allowed = False,
                reason = ''max_notional_usd_per_trade exceeded ('' @ format_fixed 2 notional_usd
                  @ '' > '' @ format_fixed 2 (max_notional_usd_per_trade s) @ '')''\<rparr>)
      else if max_trades_per_day s \<le> trades_today s
      then (s, \<lparr>allowed = False,
                reason = ''max trades/day reached ('' @ str_int (trades_today s) @ ''/''
                  @ str_int (max_trades_per_day s) @ '')''\<rparr>)
      else if truthy_str pair \<and>
              max_trades_per_day_per_pair s \<le> get_default (trades_today_by_pair s (the pair)) 0
      then (s, \<lparr>allowed = False,
                reason = ''max trades/day per pair reached ('' @ the pair @ '': ''
                  @ str_int (get_default (trades_today_by_pair s (the pair)) 0) @ ''/''
                  @ str_int (max_trades_per_day_per_pair s) @ '')''\<rparr>)
      else (s, \<lparr>allowed = True, reason = ''ok''\<rparr>))"

definition record_trade :: "world \<Rightarrow> RiskEngine \<Rightarrow> string option \<Rightarrow> RiskEngine" where
  "record_trade w s0 pair =
     (let s = roll_day_if_needed w s0;
          s1 = s\<lparr>trades_today := trades_today s + 1\<rparr>
      in if truthy_str pair
         then s1\<lparr>trades_today_by_pair :=
                   (trades_today_by_pair s1)(the pair \<mapsto>
                      get_default (trades_today_by_pair s1 (the pair)) 0 + 1)\<rparr>
         else s1)"

text \<open>
  A run of the engine: calls of its three methods, interleaved with changes of the
  world made by others (the clock moving on, an operator creating or removing the
  kill and pause files).
\<close>

datatype event =
    Can_trade real string "string option"
  | Record_trade "string option"
  | Update_portfolio_metrics bool real real
  | External world

fun step :: "RiskEngine \<times> world \<Rightarrow> event \<Rightarrow> RiskEngine \<times> world" where
  "step (s, w) (Can_trade n m p) = (fst (can_trade w s n m p), w)"
| "step (s, w) (Record_trade p) = (record_trade w s p, w)"
| "step (s, w) (Update_portfolio_metrics ok r d) = update_portfolio_metrics ok r d (s, w)"
| "step (s, w) (External w') = (s, w')"

definition run :: "RiskEngine \<times> world \<Rightarrow> event list \<Rightarrow> RiskEngine \<times> world" where
  "run sw es = foldl step sw es"

text \<open>
  The circuit-breaker condition of \<open>update_portfolio_metrics\<close>, and the state it leaves:
  a pause reason that starts with \<open>circuit breaker: \<close>.
\<close>

definition trips :: "RiskEngine \<Rightarrow> real \<Rightarrow> real \<Rightarrow> bool" where
  "trips s realized_pnl_usd max_dd_usd =
     ((0 < max_daily_loss_usd s \<and> realized_pnl_usd \<le> - max_daily_loss_usd s) \<or>
      (0 < max_drawdown_usd s \<and> max_drawdown_usd s \<le> max_dd_usd))"

definition breaker_paused :: "RiskEngine \<Rightarrow> bool" where
  "breaker_paused s = (\<exists>r. pause_reason s = Some (''circuit breaker: '' @ r))"

text \<open>
  Events of one UTC day \<open>d\<close> (the clock stays on \<open>d\<close>), the number of \<open>record_trade\<close>
  calls among them, and the counters as \<open>_roll_day_if_needed\<close> resets them.
\<close>

fun is_record_trade :: "event \<Rightarrow> bool" where
  "is_record_trade (Record_trade p) = True"
| "is_record_trade e = False"

definition recorded :: "event list \<Rightarrow> nat" where
  "recorded es = length (filter is_record_trade es)"

fun on_day :: "string \<Rightarrow> event \<Rightarrow> bool" where
  "on_day d (External w) = (utc_day w = d)"
| "on_day d e = True"

definition same_day :: "string \<Rightarrow> event list \<Rightarrow> bool" where
  "same_day d es = list_all (on_day d) es"

definition reset_counters :: "world \<Rightarrow> RiskEngine \<Rightarrow> RiskEngine" where
  "reset_counters w s =
     s\<lparr>day_key := utc_day w, trades_today := 0, trades_today_by_pair := Map.empty\<rparr>"

section \<open>The order evaluator (\<open>app/exchange/kraken_orders.py\<close>)\<close>

record OrderDecision =
  od_pair :: string
  od_side :: string
  od_ordertype :: string
  od_volume :: string
  od_price :: "string option"
  od_mode :: string
  od_notional_usd :: real
  od_reason :: string

record metrics =
  m_bid :: real
  m_ask :: real
  m_last :: real
  m_mid :: real
  m_spread_pct :: real
  m_slippage_pct :: real

text \<open>
  The configuration entries \<open>build_order\<close> reads (\<open>order_type\<close> has a default), a value
  of the exchange's JSON with the text \<open>str\<close> prints and the number \<open>float\<close> reads from it
  (\<open>None\<close> when \<open>float\<close> raises), the pair metadata and the ticker.
\<close>

record order_cfg =
  trading_mode :: string
  trading_order_type :: "string option"
  quote_notional_usd :: real
  max_spread_pct :: real
  max_slippage_pct :: real
  limit_offset_pct :: real

record raw_value =
  raw_text :: string
  raw_float :: "real option"

record pair_info =
  lot_decimals :: "int option"
  cost_decimals :: "int option"
  ordermin :: "raw_value option"

record ticker =
  tk_bid :: real
  tk_ask :: real
  tk_last :: real

record order_payload =
  pay_pair :: string
  pay_type :: string
  pay_ordertype :: string
  pay_volume :: string
  pay_price :: "string option option"

text \<open>
  The exchange client, by its answers: \<open>resolve_pair_info\<close> and \<open>get_ticker\<close> raise
  \<open>RuntimeError\<close> on an error answer; \<open>AddOrder\<close> answers with its list of errors.
\<close>

record kraken =
  resolve_pair_info :: "string \<Rightarrow> py_error + pair_info"
  get_ticker :: "string \<Rightarrow> py_error + ticker"
  add_order :: "order_payload \<Rightarrow> py_error + string list"

definition pct :: "real \<Rightarrow> real" where
  "pct x = x * 100"

text \<open>A format with a negative number of decimals raises \<open>ValueError\<close>.\<close>

definition format_dec :: "real \<Rightarrow> int \<Rightarrow> py_error + string" where
  "format_dec val decimals =
     (if decimals < 0 then Inl ValueError else Inr (format_fixed (nat decimals) val))"

definition format_volume :: "real \<Rightarrow> int \<Rightarrow> py_error + string" where
  "format_volume v lot_dec =
     (if lot_dec < 0 then Inl ValueError else Inr (format_fixed (nat lot_dec) v))"

definition calc_spread_pct :: "real \<Rightarrow> real \<Rightarrow> py_error + real" where
  "calc_spread_pct bid ask =
     (let mid = (bid + ask) / 2
      in if mid \<le> 0 then Inr 999
         else (case py_truediv (ask - bid) mid of
                 Inl e \<Rightarrow> Inl e
               | Inr q \<Rightarrow> Inr (pct q)))"

definition slippage_pct :: "real \<Rightarrow> real \<Rightarrow> py_error + real" where
  "slippage_pct ref current =
     (if ref \<le> 0 then Inr 999
      else (case py_truediv \<bar>current - ref\<bar> ref of
              Inl e \<Rightarrow> Inl e
            | Inr q \<Rightarrow> Inr (pct q)))"

definition blocked_order ::
    "string \<Rightarrow> string \<Rightarrow> string \<Rightarrow> string \<Rightarrow> real \<Rightarrow> string \<Rightarrow> OrderDecision" where
  "blocked_order pair_key side ordertype mode notional why =
     \<lparr>od_pair = pair_key, od_side = side, od_ordertype = ordertype, od_volume = ''0'',
      od_price = None, od_mode = mode, od_notional_usd = notional, od_reason = why\<rparr>"

text \<open>
  The minimum-size test \<open>float(vol_str) < float(ordermin)\<close>, made only when \<open>ordermin\<close>
  is present. \<open>vol\<close> is the number formatted as \<open>vol_str\<close>, so \<open>float(vol_str)\<close> is
  \<open>vol\<close> rounded to \<open>lot_dec\<close> decimals. A \<open>float(ordermin)\<close> that raises is swallowed
  and the check passes.
\<close>

definition below_ordermin :: "pair_info \<Rightarrow> int \<Rightarrow> real \<Rightarrow> bool" where
  "below_ordermin info lot_dec vol =
     (case ordermin info of
        None \<Rightarrow> False
      | Some om \<Rightarrow>
          (case raw_float om of
             None \<Rightarrow> False
           | Some m \<Rightarrow> round_fixed (nat lot_dec) vol < m))"

text \<open>The end of \<open>build_order\<close>, after sizing: the minimum-size check, then the limit price.\<close>

definition order_after_sizing ::
    "order_cfg \<Rightarrow> pair_info \<Rightarrow> ticker \<Rightarrow> metrics \<Rightarrow> string \<Rightarrow> string \<Rightarrow> int \<Rightarrow>
     real \<Rightarrow> string \<Rightarrow> real \<Rightarrow> py_error + OrderDecision \<times> metrics" where
  "order_after_sizing cfg info tk mt pair_key side lot_dec vol vol_str notional =
     (let mode = trading_mode cfg;
          ordertype = get_default (trading_order_type cfg) ''limit'';
          cost_dec = get_default (cost_decimals info) 2;
          below = below_ordermin info lot_dec vol
      in if below
         then Inr (\<lparr>od_pair = pair_key, od_side = side, od_ordertype = ordertype,
                     od_volume = vol_str, od_price = None, od_mode = mode,
                     od_notional_usd = notional,
                     od_reason = ''blocked: below ordermin ('' @ raw_text (the (ordermin info))
                        @ '')''\<rparr>, mt)
         else if ordertype = ''limit''
         then (let px = (if side = ''buy''
                         then tk_ask tk * (1 + limit_offset_pct cfg / 100)
                         else tk_bid tk * (1 - limit_offset_pct cfg / 100))
               in case format_dec px cost_dec of
                    Inl e \<Rightarrow> Inl e
                  | Inr price_str \<Rightarrow>
                      Inr (\<lparr>od_pair = pair_key, od_side = side, od_ordertype = ordertype,
                            od_volume = vol_str, od_price = Some price_str, od_mode = mode,
                            od_notional_usd = notional, od_reason = ''ok''\<rparr>, mt))
         else Inr (\<lparr>od_pair = pair_key, od_side = side, od_ordertype = ordertype,
                     od_volume = vol_str, od_price = None, od_mode = mode,
                     od_notional_usd = notional, od_reason = ''ok''\<rparr>, mt))"

definition build_order ::
    "kraken \<Rightarrow> order_cfg \<Rightarrow> string \<Rightarrow> string \<Rightarrow> real option \<Rightarrow>
     py_error + OrderDecision \<times> metrics" where
  "build_order k cfg pair_key side base_volume_override =
     (let mode = trading_mode cfg;
          ordertype = get_default (trading_order_type cfg) ''limit'';
          quote = quote_notional_usd cfg;
          max_spread = max_spread_pct cfg;
          max_slip = max_slippage_pct cfg
      in case resolve_pair_info k pair_key of
           Inl e \<Rightarrow> Inl e
         | Inr info \<Rightarrow>
       (case get_ticker k pair_key of
           Inl e \<Rightarrow> Inl e
         | Inr tk \<Rightarrow>
       (let bid = tk_bid tk; ask = tk_ask tk; lst = tk_last tk
        in case calc_spread_pct bid ask of
             Inl e \<Rightarrow> Inl e
           | Inr spread \<Rightarrow>
         (let mid = (bid + ask) / 2
          in case slippage_pct mid lst of
               Inl e \<Rightarrow> Inl e
             | Inr slip \<Rightarrow>
           (let mt = \<lparr>m_bid = bid, m_ask = ask, m_last = lst, m_mid = mid,
                       m_spread_pct = spread, m_slippage_pct = slip\<rparr>
            in if max_spread < spread
               then Inr (blocked_order pair_key side ordertype mode quote
                           (''blocked: spread '' @ format_fixed 6 spread @ ''% > max ''
                              @ format_fixed 6 max_spread @ ''%''), mt)
               else if max_slip < slip
               then Inr (blocked_order pair_key side ordertype mode quote
                           (''blocked: slippage '' @ format_fixed 6 slip @ ''% > max ''
                              @ format_fixed 6 max_slip @ ''%''), mt)
               else (let lot_dec = get_default (lot_decimals info) 8
                     in if side = ''buy''
                        then (if lst \<le> 0
                              then Inr (blocked_order pair_key side ordertype mode quote
                                          ''blocked: invalid last'', mt)
                              else (case py_truediv quote lst of
                                      Inl e \<Rightarrow> Inl e
                                    | Inr vol \<Rightarrow>
                                  (case format_volume vol lot_dec of
                                      Inl e \<Rightarrow> Inl e
                                    | Inr vol_str \<Rightarrow>
                                        order_after_sizing cfg info tk mt pair_key side
                                          lot_dec vol vol_str quote)))
                        else (if base_volume_override = None \<or> the base_volume_override \<le> 0
                              then Inr (blocked_order pair_key side ordertype mode 0
                                          ''blocked: no position volume'', mt)
                              else (case format_volume (the base_volume_override) lot_dec of
                                      Inl e \<Rightarrow> Inl e
                                    | Inr vol_str \<Rightarrow>
                                        order_after_sizing cfg info tk mt pair_key side
                                          lot_dec (the base_volume_override) vol_str
                                          (the base_volume_override * lst)))))))))"

text \<open>
  The conditions of \<open>build_order\<close>'s sizing step, by side: the test that blocks, and
  the volume and the notional it hands on.
\<close>

definition sizing_blocks :: "string \<Rightarrow> ticker \<Rightarrow> real option \<Rightarrow> bool" where
  "sizing_blocks side tk base_volume_override =
     (if side = ''buy'' then tk_last tk \<le> 0
      else base_volume_override = None \<or> the base_volume_override \<le> 0)"

definition sized_volume :: "order_cfg \<Rightarrow> string \<Rightarrow> ticker \<Rightarrow> real option \<Rightarrow> real" where
  "sized_volume cfg side tk base_volume_override =
     (if side = ''buy'' then quote_notional_usd cfg / tk_last tk else the base_volume_override)"

definition sized_notional :: "order_cfg \<Rightarrow> string \<Rightarrow> ticker \<Rightarrow> real option \<Rightarrow> real" where
  "sized_notional cfg side tk base_volume_override =
     (if side = ''buy'' then quote_notional_usd cfg else the base_volume_override * tk_last tk)"

definition limit_price :: "order_cfg \<Rightarrow> string \<Rightarrow> ticker \<Rightarrow> real" where
  "limit_price cfg side tk =
     (if side = ''buy'' then tk_ask tk * (1 + limit_offset_pct cfg / 100)
      else tk_bid tk * (1 - limit_offset_pct cfg / 100))"

definition decision_reason :: "(py_error + OrderDecision \<times> metrics) \<Rightarrow> string option" where
  "decision_reason r = (case r of Inl e \<Rightarrow> None | Inr (od, mt) \<Rightarrow> Some (od_reason od))"

text \<open>\<open>str\<close> of a list of strings, as the \<open>AddOrder error\<close> reason prints it.\<close>

fun join_strs :: "string list \<Rightarrow> string" where
  "join_strs [] = []"
| "join_strs [x] = [CHR 0x27] @ x @ [CHR 0x27]"
| "join_strs (x # xs) = [CHR 0x27] @ x @ [CHR 0x27] @ '', '' @ join_strs xs"

definition str_list :: "string list \<Rightarrow> string" where
  "str_list xs = ''['' @ join_strs xs @ '']''"

definition live_latch_enabled :: "world \<Rightarrow> bool" where
  "live_latch_enabled w = (''/run/trading/ENABLE_LIVE_TRADING'' \<in> files w)"

text \<open>
  \<open>place_or_preview\<close> returns the decision, or the exception it lets through, and the
  risk engine as the call leaves it.
\<close>

definition place_or_preview ::
    "kraken \<Rightarrow> order_cfg \<Rightarrow> world \<Rightarrow> RiskEngine \<Rightarrow> string \<Rightarrow> string \<Rightarrow> real option \<Rightarrow>
     (py_error + OrderDecision \<times> metrics) \<times> RiskEngine" where
  "place_or_preview k cfg w risk pair_key side base_volume_override =
     (case build_order k cfg pair_key side base_volume_override of
        Inl e \<Rightarrow> (Inl e, risk)
      | Inr (od, mt) \<Rightarrow>
          if od_reason od \<noteq> ''ok'' then (Inr (od, mt), risk)
          else (case can_trade w risk (od_notional_usd od) (od_mode od) (Some pair_key) of
                  (risk1, rd) \<Rightarrow>
            if \<not> allowed rd
            then (Inr (od\<lparr>od_reason := ''blocked by risk: '' @ reason rd\<rparr>, mt), risk1)
            else if od_mode od \<noteq> ''live''
            then (Inr (od\<lparr>od_reason := ''dry-run''\<rparr>, mt), risk1)
            else if \<not> live_latch_enabled w
            then (Inr (od\<lparr>od_reason :=
                    ''blocked: live latch not enabled (/run/trading/ENABLE_LIVE_TRADING)''\<rparr>, mt),
                  risk1)
            else (let payload = \<lparr>pay_pair = od_pair od, pay_type = od_side od,
                                  pay_ordertype = od_ordertype od, pay_volume = od_volume od,
                                  pay_price = (if od_ordertype od = ''limit''
                                               then Some (od_price od) else None)\<rparr>
                  in case add_order k payload of
                       Inl e \<Rightarrow> (Inl e, risk1)
                     | Inr errs \<Rightarrow>
                         if errs \<noteq> []
                         then (Inr (od\<lparr>od_reason := ''AddOrder error: '' @ str_list errs\<rparr>, mt),
                               risk1)
                         else (Inr (od\<lparr>od_reason := ''LIVE order placed''\<rparr>, mt),
                               record_trade w risk1 (Some pair_key)))))"

text \<open>
  The thresholds \<open>app/web/server.py\<close> falls back to when the configuration has none:
  \<open>safety.get("max_spread_pct", 0.30)\<close> and \<open>safety.get("max_slippage_pct", 0.50)\<close>.
\<close>

definition default_max_spread_pct :: real where
  "default_max_spread_pct = 0.30"

definition default_max_slippage_pct :: real where
  "default_max_slippage_pct = 0.50"

section \<open>PnL analytics (\<open>app/util/pnl_analytics.py\<close>)\<close>

text \<open>
  A row of the trade history, the statistics kept per pair and for the portfolio, an
  open lot, and the document \<open>compute_pnl\<close> returns. A Python dictionary is an
  association list in insertion order: \<open>AList.update\<close> replaces the value of a key in
  place and appends a new key at the end.
\<close>

record trade =
  t_ts :: int
  t_pair :: string
  t_side :: string
  t_volume :: real
  t_price :: real
  t_notional_usd :: real
  t_mode :: string

record pair_stats =
  pp_realized_pnl_usd :: real
  pp_unrealized_pnl_usd :: real
  pp_net_pnl_usd :: real
  pp_wins :: int
  pp_losses :: int
  pp_trades_closed :: int
  pp_win_rate :: real
  pp_open_position :: bool
  pp_open_volume :: real
  pp_entry_price :: real
  pp_mark_price :: real
  pp_last_event_ts :: int

record portfolio_stats =
  pf_realized_pnl_usd :: real
  pf_unrealized_pnl_usd :: real
  pf_net_pnl_usd :: real
  pf_wins :: int
  pf_losses :: int
  pf_trades_closed :: int
  pf_win_rate :: real
  pf_max_drawdown_usd :: real

record lot =
  vol :: real
  entry_px :: real
  entry_ts :: real
  cost_usd :: real

record pnl_state =
  per_pair :: "(string \<times> pair_stats) list"
  portfolio :: portfolio_stats
  open_pos :: "(string \<times> lot) list"
  equity_points :: "(int \<times> real) list"
  realized_equity :: real
  peak_equity :: real
  max_dd :: real

record pnl_doc =
  doc_ts :: int
  doc_portfolio :: portfolio_stats
  doc_pairs :: "(string \<times> pair_stats) list"
  doc_equity_curve_realized :: "(int \<times> real) list"

definition pair_round :: "real \<Rightarrow> real" where
  "pair_round x = round_fixed 6 x"

definition new_pair_stats :: "(string \<rightharpoonup> real) \<Rightarrow> string \<Rightarrow> pair_stats" where
  "new_pair_stats marks pair =
     \<lparr>pp_realized_pnl_usd = 0, pp_unrealized_pnl_usd = 0, pp_net_pnl_usd = 0,
      pp_wins = 0, pp_losses = 0, pp_trades_closed = 0, pp_win_rate = 0,
      pp_open_position = False, pp_open_volume = 0, pp_entry_price = 0,
      pp_mark_price = get_default (marks pair) 0, pp_last_event_ts = 0\<rparr>"

definition pnl_init :: pnl_state where
  "pnl_init =
     \<lparr>per_pair = [],
      portfolio = \<lparr>pf_realized_pnl_usd = 0, pf_unrealized_pnl_usd = 0, pf_net_pnl_usd = 0,
                    pf_wins = 0, pf_losses = 0, pf_trades_closed = 0, pf_win_rate = 0,
                    pf_max_drawdown_usd = 0\<rparr>,
      open_pos = [], equity_points = [], realized_equity = 0, peak_equity = 0, max_dd = 0\<rparr>"

definition zero_lot :: lot where
  "zero_lot = \<lparr>vol = 0, entry_px = 0, entry_ts = 0, cost_usd = 0\<rparr>"

text \<open>\<open>pair in open_pos and open_pos[pair].get("vol", 0.0) > 0\<close>\<close>

definition lot_open :: "(string \<times> lot) list \<Rightarrow> string \<Rightarrow> bool" where
  "lot_open op pair = (case map_of op pair of None \<Rightarrow> False | Some l \<Rightarrow> 0 < vol l)"

text \<open>The statistics of a pair as the loop body sees them: created on first sight.\<close>

definition stats_of :: "(string \<rightharpoonup> real) \<Rightarrow> pnl_state \<Rightarrow> string \<Rightarrow> pair_stats" where
  "stats_of marks st pair =
     (case map_of (per_pair st) pair of
        None \<Rightarrow> new_pair_stats marks pair
      | Some ps \<Rightarrow> ps)"

text \<open>One pass of the loop over the trades.\<close>

definition pnl_step :: "(string \<rightharpoonup> real) \<Rightarrow> pnl_state \<Rightarrow> trade \<Rightarrow> pnl_state" where
  "pnl_step marks st t =
     (let pair = t_pair t; side = t_side t; v = t_volume t; px = t_price t; ts = t_ts t;
          ps = (stats_of marks st pair)\<lparr>pp_last_event_ts := ts\<rparr>
      in if side = ''buy''
         then (if \<not> lot_open (open_pos st) pair
               then st\<lparr>per_pair := AList.update pair
                                       (ps\<lparr>pp_open_position := True, pp_open_volume := v,
                                            pp_entry_price := px\<rparr>) (per_pair st),
                        open_pos := AList.update pair
                                       \<lparr>vol = v, entry_px = px, entry_ts = of_int ts,
                                        cost_usd = v * px\<rparr> (open_pos st)\<rparr>
               else st\<lparr>per_pair := AList.update pair ps (per_pair st)\<rparr>)
         else if side = ''sell''
         then (if lot_open (open_pos st) pair
               then (let l = the (map_of (open_pos st) pair);
                         entry_vol = vol l;
                         close_vol = (if 0 < v then min entry_vol v else entry_vol);
                         pnl = (px - entry_px l) * close_vol;
                         ps1 = ps\<lparr>pp_realized_pnl_usd := pp_realized_pnl_usd ps + pnl,
                                   pp_trades_closed := pp_trades_closed ps + 1\<rparr>;
                         pf1 = (portfolio st)
                                 \<lparr>pf_realized_pnl_usd := pf_realized_pnl_usd (portfolio st) + pnl,
                                  pf_trades_closed := pf_trades_closed (portfolio st) + 1\<rparr>;
                         ps2 = (if 0 \<le> pnl then ps1\<lparr>pp_wins := pp_wins ps1 + 1\<rparr>
                                else ps1\<lparr>pp_losses := pp_losses ps1 + 1\<rparr>);
                         pf2 = (if 0 \<le> pnl then pf1\<lparr>pf_wins := pf_wins pf1 + 1\<rparr>
                                else pf1\<lparr>pf_losses := pf_losses pf1 + 1\<rparr>);
                         ps3 = ps2\<lparr>pp_open_position := False, pp_open_volume := 0,
                                    pp_entry_price := 0\<rparr>;
                         re = realized_equity st + pnl;
                         pk = max (peak_equity st) re;
                         dd = pk - re
                     in st\<lparr>per_pair := AList.update pair ps3 (per_pair st),
                           portfolio := pf2,
                           open_pos := AList.update pair zero_lot (open_pos st),
                           equity_points := equity_points st @ [(ts, re)],
                           realized_equity := re,
                           peak_equity := pk,
                           max_dd := max (max_dd st) dd\<rparr>)
               else st\<lparr>per_pair := AList.update pair ps (per_pair st)\<rparr>)
         else st\<lparr>per_pair := AList.update pair ps (per_pair st)\<rparr>)"

definition pnl_loop :: "(string \<rightharpoonup> real) \<Rightarrow> pnl_state \<Rightarrow> trade list \<Rightarrow> pnl_state" where
  "pnl_loop marks st trades = foldl (pnl_step marks) st trades"

text \<open>
  The loop over the open positions. \<open>per_pair[pair]\<close> raises \<open>KeyError\<close> for a pair
  with no statistics.
\<close>

definition unrealized_step ::
    "(string \<rightharpoonup> real) \<Rightarrow> (string \<times> pair_stats) list \<times> portfolio_stats \<Rightarrow> string \<times> lot \<Rightarrow>
     py_error + (string \<times> pair_stats) list \<times> portfolio_stats" where
  "unrealized_step marks acc item =
     (case acc of (pp, pf) \<Rightarrow>
      case item of (pair, pos) \<Rightarrow>
        (let mark = get_default (marks pair) 0
         in if 0 < vol pos \<and> 0 < entry_px pos \<and> 0 < mark
            then (case map_of pp pair of
                    None \<Rightarrow> Inl KeyError
                  | Some ps \<Rightarrow>
                      (let u = (mark - entry_px pos) * vol pos
                       in Inr (AList.update pair
                                 (ps\<lparr>pp_unrealized_pnl_usd := u, pp_open_position := True,
                                     pp_open_volume := vol pos, pp_entry_price := entry_px pos,
                                     pp_mark_price := mark\<rparr>) pp,
                               pf\<lparr>pf_unrealized_pnl_usd := pf_unrealized_pnl_usd pf + u\<rparr>)))
            else Inr acc))"

fun unrealized_loop ::
    "(string \<rightharpoonup> real) \<Rightarrow> (string \<times> pair_stats) list \<times> portfolio_stats \<Rightarrow> (string \<times> lot) list \<Rightarrow>
     py_error + (string \<times> pair_stats) list \<times> portfolio_stats" where
  "unrealized_loop marks acc [] = Inr acc"
| "unrealized_loop marks acc (item # items) =
     (case unrealized_step marks acc item of
        Inl e \<Rightarrow> Inl e
      | Inr acc' \<Rightarrow> unrealized_loop marks acc' items)"

definition rollup_pair :: "pair_stats \<Rightarrow> pair_stats" where
  "rollup_pair st =
     (let net = pp_realized_pnl_usd st + pp_unrealized_pnl_usd st;
          tc = pp_trades_closed st;
          wr = (if 0 < tc then of_int (pp_wins st) / of_int tc else 0)
      in st\<lparr>pp_realized_pnl_usd := pair_round (pp_realized_pnl_usd st),
            pp_unrealized_pnl_usd := pair_round (pp_unrealized_pnl_usd st),
            pp_net_pnl_usd := pair_round net,
            pp_win_rate := pair_round wr,
            pp_mark_price := pair_round (pp_mark_price st),
            pp_entry_price := pair_round (pp_entry_price st),
            pp_open_volume := pair_round (pp_open_volume st)\<rparr>)"

definition rollup_portfolio :: "portfolio_stats \<Rightarrow> real \<Rightarrow> portfolio_stats" where
  "rollup_portfolio pf mdd =
     (let net = pf_realized_pnl_usd pf + pf_unrealized_pnl_usd pf;
          wr = (if 0 < pf_trades_closed pf
                then of_int (pf_wins pf) / of_int (pf_trades_closed pf) else 0)
      in pf\<lparr>pf_realized_pnl_usd := pair_round (pf_realized_pnl_usd pf),
            pf_unrealized_pnl_usd := pair_round (pf_unrealized_pnl_usd pf),
            pf_net_pnl_usd := pair_round net,
            pf_win_rate := pair_round wr,
            pf_max_drawdown_usd := pair_round mdd\<rparr>)"

text \<open>\<open>now\<close> is \<open>int(time.time())\<close>, read when the document is built.\<close>

definition compute_pnl ::
    "int \<Rightarrow> trade list \<Rightarrow> (string \<rightharpoonup> real) \<Rightarrow> py_error + pnl_doc" where
  "compute_pnl now trades marks =
     (let st = pnl_loop marks pnl_init trades
      in case unrealized_loop marks (per_pair st, portfolio st) (open_pos st) of
           Inl e \<Rightarrow> Inl e
         | Inr (pp, pf) \<Rightarrow>
             Inr \<lparr>doc_ts = now,
                  doc_portfolio = rollup_portfolio pf (max_dd st),
                  doc_pairs = map (\<lambda>(pair, ps). (pair, rollup_pair ps)) pp,
                  doc_equity_curve_realized =
                    drop (length (equity_points st) - 200) (equity_points st)\<rparr>)"

text \<open>
  The profit of the close a trade makes in a state (\<open>None\<close> when it closes nothing),
  and the profits of all the closes of a history, in order.
\<close>

definition closing_pnl :: "pnl_state \<Rightarrow> trade \<Rightarrow> real option" where
  "closing_pnl st t =
     (if t_side t = ''sell'' \<and> lot_open (open_pos st) (t_pair t)
      then (let l = the (map_of (open_pos st) (t_pair t))
            in Some ((t_price t - entry_px l) *
                     (if 0 < t_volume t then min (vol l) (t_volume t) else vol l)))
      else None)"

fun close_pnls :: "(string \<rightharpoonup> real) \<Rightarrow> pnl_state \<Rightarrow> trade list \<Rightarrow> real list" where
  "close_pnls marks st [] = []"
| "close_pnls marks st (t # ts) =
     (case closing_pnl st t of None \<Rightarrow> [] | Some p \<Rightarrow> [p]) @
     close_pnls marks (pnl_step marks st t) ts"

text \<open>
  The portfolio part of what \<open>compute_pnl\<close> returns, and the statistics of a pair that
  has no loss on record.
\<close>

definition portfolio_of :: "(py_error + pnl_doc) \<Rightarrow> portfolio_stats option" where
  "portfolio_of r = (case r of Inl e \<Rightarrow> None | Inr d \<Rightarrow> Some (doc_portfolio d))"

definition pair_no_losses :: "pair_stats \<Rightarrow> bool" where
  "pair_no_losses ps = (pp_losses ps = 0 \<and> pp_wins ps = pp_trades_closed ps \<and> 0 \<le> pp_trades_closed ps)"

section \<open>The ledger document on disk (\<open>app/util/ledger.py\<close>)\<close>

text \<open>
  The files a reader in another process can see: a map from paths to contents, and
  the steps by which a writer changes it. \<open>open(path, "w")\<close> creates the file or
  truncates it to nothing; the text arrives with a later write; \<open>os.replace\<close> renames
  a file over another in one step.
\<close>

type_synonym filesystem = "string \<rightharpoonup> string"

datatype fs_op =
    Makedirs string
  | Open_for_writing string
  | Write_text string string
  | Replace string string

fun apply_fs_op :: "filesystem \<Rightarrow> fs_op \<Rightarrow> filesystem" where
  "apply_fs_op fs (Makedirs d) = fs"
| "apply_fs_op fs (Open_for_writing p) = fs(p \<mapsto> [])"
| "apply_fs_op fs (Write_text p txt) = fs(p \<mapsto> get_default (fs p) [] @ txt)"
| "apply_fs_op fs (Replace src dst) = (fs(dst := fs src))(src := None)"

definition STATE_PATH :: string where
  "STATE_PATH = ''/data/state.json''"

text \<open>
  \<open>_save_state\<close>, the end of \<open>set_position\<close>, \<open>clear_position\<close> and \<open>set_cooldown\<close>:
  \<open>dumps state now\<close> is the JSON text of the state with \<open>updated_at\<close> set to \<open>now\<close>.
\<close>

definition save_state :: "('doc \<Rightarrow> int \<Rightarrow> string) \<Rightarrow> 'doc \<Rightarrow> int \<Rightarrow> fs_op list" where
  "save_state dumps state now =
     [Makedirs ''/data'', Open_for_writing STATE_PATH, Write_text STATE_PATH (dumps state now)]"

text \<open>\<open>write_bot_status\<close> of \<open>app/main.py\<close>, which writes a temporary file and renames it.\<close>

definition write_bot_status :: "string \<Rightarrow> string \<Rightarrow> fs_op list" where
  "write_bot_status path text =
     [Makedirs ''/data'', Open_for_writing (path @ ''.tmp''), Write_text (path @ ''.tmp'') text,
      Replace (path @ ''.tmp'') path]"

text \<open>What a reader of \<open>path\<close> can find there before, between and after the steps.\<close>

definition reader_views :: "filesystem \<Rightarrow> fs_op list \<Rightarrow> string \<Rightarrow> string option list" where
  "reader_views fs ops path =
     map (\<lambda>k. foldl apply_fs_op fs (take k ops) path) [0 ..< Suc (length ops)]"

section \<open>Example inputs\<close>

definition demo_world :: world where
  "demo_world = \<lparr>utc_day = ''2024-05-01'', files = {}\<rparr>"

definition demo_world_killed :: world where
  "demo_world_killed = \<lparr>utc_day = ''2024-05-01'', files = {''/run/trading/KILL_SWITCH''}\<rparr>"

definition demo_cfg :: risk_cfg where
  "demo_cfg = \<lparr>cfg_fail_closed = None, cfg_pause_file = None, cfg_kill_switch_file = None,
     cfg_max_notional_usd_per_trade = Some 20, cfg_max_trades_per_day = None,
     cfg_max_trades_per_day_per_pair = None, cfg_max_daily_loss_usd = Some 100,
     cfg_max_drawdown_usd = None\<rparr>"

definition demo_engine :: RiskEngine where
  "demo_engine = RiskEngine_init demo_world demo_cfg"

definition demo_after_trip :: "RiskEngine \<times> world" where
  "demo_after_trip =
     run (update_portfolio_metrics False (-101) 0 (demo_engine, demo_world))
       [Update_portfolio_metrics False 50 0, Record_trade None, External demo_world]"

definition demo_after_trip_killed :: "RiskEngine \<times> world" where
  "demo_after_trip_killed =
     update_portfolio_metrics False (-101) 0 (demo_engine, demo_world_killed)"

definition demo_three_trades :: "event list" where
  "demo_three_trades =
     [Record_trade (Some ''XBTUSD''), Can_trade 5 ''dry_run'' (Some ''ETHUSD''),
      Record_trade (Some ''ETHUSD''), External demo_world, Record_trade (Some ''XBTUSD'')]"

definition demo_after_three :: "RiskEngine \<times> world" where
  "demo_after_three = run (demo_engine, demo_world) demo_three_trades"

definition demo_world_next :: world where
  "demo_world_next = \<lparr>utc_day = ''2024-05-02'', files = {}\<rparr>"

definition demo_kraken :: kraken where
  "demo_kraken =
     \<lparr>resolve_pair_info = (\<lambda>p. Inr \<lparr>lot_decimals = Some 8, cost_decimals = Some 1,
                                     ordermin = Some \<lparr>raw_text = ''0.0001'',
                                                      raw_float = Some 0.0001\<rparr>\<rparr>),
      get_ticker = (\<lambda>p. Inr \<lparr>tk_bid = 50000, tk_ask = 50010, tk_last = 50005\<rparr>),
      add_order = (\<lambda>p. Inr [])\<rparr>"

definition demo_order_cfg :: "string \<Rightarrow> order_cfg" where
  "demo_order_cfg mode =
     \<lparr>trading_mode = mode, trading_order_type = None, quote_notional_usd = 20,
      max_spread_pct = 0.30, max_slippage_pct = 0.50, limit_offset_pct = 0.02\<rparr>"

definition demo_world_live :: world where
  "demo_world_live =
     \<lparr>utc_day = ''2024-05-01'', files = {''/run/trading/ENABLE_LIVE_TRADING''}\<rparr>"

definition demo_kraken_flat :: kraken where
  "demo_kraken_flat = demo_kraken\<lparr>get_ticker := (\<lambda>p. Inr \<lparr>tk_bid = 0, tk_ask = 0, tk_last = 0\<rparr>)\<rparr>"

definition demo_kraken_wide :: kraken where
  "demo_kraken_wide =
     demo_kraken\<lparr>get_ticker := (\<lambda>p. Inr \<lparr>tk_bid = 100, tk_ask = 110, tk_last = 105\<rparr>)\<rparr>"

definition demo_buy :: trade where
  "demo_buy = \<lparr>t_ts = 1, t_pair = ''XBTUSD'', t_side = ''buy'', t_volume = 0.001,
                t_price = 50000, t_notional_usd = 50, t_mode = ''dry_run''\<rparr>"

definition demo_sell :: trade where
  "demo_sell = \<lparr>t_ts = 2, t_pair = ''XBTUSD'', t_side = ''sell'', t_volume = 0.001,
                 t_price = 51000, t_notional_usd = 51, t_mode = ''dry_run''\<rparr>"

definition demo_sell_even :: trade where
  "demo_sell_even = demo_sell\<lparr>t_price := 50000\<rparr>"

definition demo_sell_zero_volume :: trade where
  "demo_sell_zero_volume = demo_sell\<lparr>t_volume := 0\<rparr>"

definition demo_open_state :: pnl_state where
  "demo_open_state = pnl_step Map.empty pnl_init demo_buy"

section \<open>Properties of the risk engine\<close>

lemma roll_day_fields [simp]:
  "kill_file (roll_day_if_needed w s) = kill_file s"
  "pause_file (roll_day_if_needed w s) = pause_file s"
  "pause_reason (roll_day_if_needed w s) = pause_reason s"
  "max_notional_usd_per_trade (roll_day_if_needed w s) = max_notional_usd_per_trade s"
  "max_trades_per_day (roll_day_if_needed w s) = max_trades_per_day s"
  "max_trades_per_day_per_pair (roll_day_if_needed w s) = max_trades_per_day_per_pair s"
  "max_daily_loss_usd (roll_day_if_needed w s) = max_daily_loss_usd s"
  "max_drawdown_usd (roll_day_if_needed w s) = max_drawdown_usd s"
  by (simp_all add: roll_day_if_needed_def Let_def)

lemma fst_can_trade [simp]: "fst (can_trade w s n m p) = roll_day_if_needed w s"
  by (simp add: can_trade_def Let_def)

lemma breaker_paused_roll [simp]: "breaker_paused (roll_day_if_needed w s) = breaker_paused s"
  by (simp add: breaker_paused_def)

lemma breaker_paused_record [simp]: "breaker_paused (record_trade w s p) = breaker_paused s"
  by (simp add: breaker_paused_def record_trade_def Let_def)

lemma breaker_paused_update:
  "breaker_paused s \<Longrightarrow> breaker_paused (fst (update_portfolio_metrics ok r d (s, w)))"
  by (auto simp add: breaker_paused_def update_portfolio_metrics_def touch_pause_def Let_def)

lemma trips_update:
  "trips s r d \<Longrightarrow> breaker_paused (fst (update_portfolio_metrics ok r d (s, w)))"
  by (auto simp add: trips_def breaker_paused_def update_portfolio_metrics_def touch_pause_def Let_def)

lemma breaker_paused_step: "breaker_paused (fst sw) \<Longrightarrow> breaker_paused (fst (step sw e))"
  by (cases sw; cases e) (simp_all add: breaker_paused_update)

lemma breaker_paused_run: "breaker_paused (fst sw) \<Longrightarrow> breaker_paused (fst (run sw es))"
  unfolding run_def
  by (induction es arbitrary: sw) (simp_all add: breaker_paused_step)

lemma sublist_breaker: "sublist ''circuit breaker'' (''paused: '' @ ''circuit breaker: '' @ r)"
proof -
  have "''paused: '' @ ''circuit breaker: '' @ r = ''paused: '' @ ''circuit breaker'' @ ('': '' @ r)"
    by simp
  then show ?thesis unfolding sublist_def by blast
qed

lemma breaker_paused_can_trade:
  assumes "breaker_paused s"
  shows "\<not> allowed (snd (can_trade w s n m p))"
    and "\<not> kill_switch_active w s \<Longrightarrow> sublist ''circuit breaker'' (reason (snd (can_trade w s n m p)))"
proof -
  from assms obtain r where r: "pause_reason s = Some (''circuit breaker: '' @ r)"
    by (auto simp add: breaker_paused_def)
  show "\<not> allowed (snd (can_trade w s n m p))"
    using r by (simp add: can_trade_def Let_def paused_def)
  assume "\<not> kill_switch_active w s"
  then have "reason (snd (can_trade w s n m p)) = ''paused: '' @ ''circuit breaker: '' @ r"
    using r by (simp add: can_trade_def Let_def paused_def kill_switch_active_def
        get_pause_reason_def truthy_str_def)
  then show "sublist ''circuit breaker'' (reason (snd (can_trade w s n m p)))"
    using sublist_breaker by simp
qed

text \<open>
  Claim C1, as the code has it. Once \<open>update_portfolio_metrics\<close> trips a circuit
  breaker, then after any further events (calls of the engine with any numbers, the
  clock moving, files created or removed by others) every \<open>can_trade\<close> is a denial and
  the pause reason is still set. The reason of the denial contains \<open>circuit breaker\<close>
  when the kill-switch file is absent; when it is present the kill switch is checked
  first and the reason is \<open>kill switch active\<close>.
\<close>

theorem circuit_breaker_sticky:
  assumes "trips s r d"
    and "run (update_portfolio_metrics ok r d (s, w)) es = (s', w')"
  shows "\<not> allowed (snd (can_trade w' s' n m p)) \<and>
         (\<not> kill_switch_active w' s' \<longrightarrow>
            sublist ''circuit breaker'' (reason (snd (can_trade w' s' n m p)))) \<and>
         (kill_switch_active w' s' \<longrightarrow>
            reason (snd (can_trade w' s' n m p)) = ''kill switch active'') \<and>
         pause_reason s' \<noteq> None"
proof -
  have "breaker_paused (fst (run (update_portfolio_metrics ok r d (s, w)) es))"
    using assms(1) by (intro breaker_paused_run trips_update)
  then have bp: "breaker_paused s'" using assms(2) by simp
  have "kill_switch_active w' s' \<longrightarrow> reason (snd (can_trade w' s' n m p)) = ''kill switch active''"
    by (simp add: can_trade_def Let_def kill_switch_active_def)
  moreover have "pause_reason s' \<noteq> None" using bp by (auto simp add: breaker_paused_def)
  ultimately show ?thesis using breaker_paused_can_trade [OF bp] by blast
qed

theorem circuit_breaker_sticky_witness:
  "trips demo_engine (-101) 0 \<and>
   \<not> allowed (snd (can_trade (snd demo_after_trip) (fst demo_after_trip) 5 ''live'' (Some ''XBTUSD''))) \<and>
   reason (snd (can_trade (snd demo_after_trip) (fst demo_after_trip) 5 ''live'' (Some ''XBTUSD'')))
     = ''paused: circuit breaker: realized pnl -101.000000 <= -100.000000'' \<and>
   sublist ''circuit breaker''
     (reason (snd (can_trade (snd demo_after_trip) (fst demo_after_trip) 5 ''live'' (Some ''XBTUSD''))))"
proof -
  have t: "trips demo_engine (-101) 0"
    by code_simp
  have k: "\<not> kill_switch_active (snd demo_after_trip) (fst demo_after_trip)"
    by code_simp
  have c: "reason (snd (can_trade (snd demo_after_trip) (fst demo_after_trip) 5 ''live'' (Some ''XBTUSD'')))
     = ''paused: circuit breaker: realized pnl -101.000000 <= -100.000000''"
    by code_simp
  have r: "run (update_portfolio_metrics False (-101) 0 (demo_engine, demo_world))
       [Update_portfolio_metrics False 50 0, Record_trade None, External demo_world]
     = (fst demo_after_trip, snd demo_after_trip)"
    by (simp add: demo_after_trip_def)
  show ?thesis
    using circuit_breaker_sticky [OF t r, of 5 "''live''" "Some ''XBTUSD''"] t k c
    by simp
qed

text \<open>
  With the kill-switch file present when the breaker trips, the denial that follows
  does not mention the circuit breaker.
\<close>

theorem circuit_breaker_reason_counterexample:
  "trips demo_engine (-101) 0 \<and>
   reason (snd (can_trade (snd demo_after_trip_killed) (fst demo_after_trip_killed)
                  5 ''live'' (Some ''XBTUSD''))) = ''kill switch active'' \<and>
   \<not> sublist ''circuit breaker''
     (reason (snd (can_trade (snd demo_after_trip_killed) (fst demo_after_trip_killed)
                  5 ''live'' (Some ''XBTUSD''))))"
  by code_simp

text \<open>
  Claim C2. A notional above \<open>max_notional_usd_per_trade\<close> is denied in every engine
  state and world; and with a cap of 20, no kill switch and no pause, a notional of 25
  is denied with the reason \<open>max_notional_usd_per_trade exceeded (25.00 > 20.00)\<close>.
\<close>

theorem can_trade_denies_over_notional:
  "(max_notional_usd_per_trade s < notional_usd \<longrightarrow>
      \<not> allowed (snd (can_trade w s notional_usd mode pair))) \<and>
   (max_notional_usd_per_trade s = 20 \<and> \<not> kill_switch_active w s \<and> \<not> paused w s \<longrightarrow>
      snd (can_trade w s 25 ''live'' (Some ''XBTUSD'')) =
        \<lparr>allowed = False, reason = ''max_notional_usd_per_trade exceeded (25.00 > 20.00)''\<rparr>)"
proof -
  have f25: "format_fixed 2 25 = ''25.00''" by code_simp
  have f20: "format_fixed 2 20 = ''20.00''" by code_simp
  have a: "max_notional_usd_per_trade s < notional_usd \<longrightarrow>
      \<not> allowed (snd (can_trade w s notional_usd mode pair))"
    by (simp add: can_trade_def Let_def)
  have b: "max_notional_usd_per_trade s = 20 \<and> \<not> kill_switch_active w s \<and> \<not> paused w s \<longrightarrow>
      snd (can_trade w s 25 ''live'' (Some ''XBTUSD'')) =
        \<lparr>allowed = False, reason = ''max_notional_usd_per_trade exceeded (25.00 > 20.00)''\<rparr>"
    by (simp add: can_trade_def Let_def kill_switch_active_def paused_def f25 f20)
  from a b show ?thesis by blast
qed

theorem can_trade_denies_over_notional_witness:
  "max_notional_usd_per_trade demo_engine < 25 \<and>
   max_notional_usd_per_trade demo_engine = 20 \<and>
   \<not> kill_switch_active demo_world demo_engine \<and> \<not> paused demo_world demo_engine \<and>
   \<not> allowed (snd (can_trade demo_world demo_engine 25 ''live'' (Some ''XBTUSD''))) \<and>
   snd (can_trade demo_world demo_engine 25 ''live'' (Some ''XBTUSD'')) =
        \<lparr>allowed = False, reason = ''max_notional_usd_per_trade exceeded (25.00 > 20.00)''\<rparr>"
proof -
  have h: "max_notional_usd_per_trade demo_engine = 20"
    "\<not> kill_switch_active demo_world demo_engine" "\<not> paused demo_world demo_engine"
    by code_simp+
  show ?thesis
    using can_trade_denies_over_notional [of demo_engine 25 demo_world "''live''" "Some ''XBTUSD''"] h
    by simp
qed

lemma update_metrics_fields [simp]:
  "trades_today (fst (update_portfolio_metrics ok r d (s, w))) = trades_today s"
  "day_key (fst (update_portfolio_metrics ok r d (s, w))) = day_key s"
  "max_trades_per_day (fst (update_portfolio_metrics ok r d (s, w))) = max_trades_per_day s"
  "utc_day (snd (update_portfolio_metrics ok r d (s, w))) = utc_day w"
  by (simp_all add: update_portfolio_metrics_def touch_pause_def Let_def)

lemma record_trade_fields [simp]:
  "max_trades_per_day (record_trade w s p) = max_trades_per_day s"
  "day_key (record_trade w s p) = utc_day w"
  "trades_today (record_trade w s p) = trades_today (roll_day_if_needed w s) + 1"
  by (simp_all add: record_trade_def roll_day_if_needed_def Let_def)

lemma roll_day_idem [simp]:
  "roll_day_if_needed w (roll_day_if_needed w s) = roll_day_if_needed w s"
  by (simp add: roll_day_if_needed_def Let_def)

lemma roll_day_same_day:
  "utc_day w' = utc_day w \<Longrightarrow> trades_today (roll_day_if_needed w' s) = trades_today (roll_day_if_needed w s)"
  by (simp add: roll_day_if_needed_def Let_def)

lemma roll_day_nonneg:
  "0 \<le> trades_today s \<Longrightarrow> 0 \<le> trades_today (roll_day_if_needed w s)"
  by (simp add: roll_day_if_needed_def Let_def)

lemma step_nonneg:
  "0 \<le> trades_today (fst sw) \<Longrightarrow> 0 \<le> trades_today (fst (step sw e))"
  by (cases sw; cases e) (simp_all add: roll_day_nonneg)

lemma run_nonneg:
  "0 \<le> trades_today (fst sw) \<Longrightarrow> 0 \<le> trades_today (fst (run sw es))"
  unfolding run_def by (induction es arbitrary: sw) (simp_all add: step_nonneg)

lemma init_nonneg: "0 \<le> trades_today (RiskEngine_init w cfg)"
  by (simp add: RiskEngine_init_def Let_def)

lemma step_counts:
  assumes "utc_day (snd sw) = d" and "on_day d e"
  shows "utc_day (snd (step sw e)) = d"
    and "max_trades_per_day (fst (step sw e)) = max_trades_per_day (fst sw)"
    and "trades_today (roll_day_if_needed (snd (step sw e)) (fst (step sw e))) =
           trades_today (roll_day_if_needed (snd sw) (fst sw)) + (if is_record_trade e then 1 else 0)"
proof -
  obtain s w where sw: "sw = (s, w)" by (cases sw)
  show "utc_day (snd (step sw e)) = d"
    using assms by (cases e) (simp_all add: sw)
  show "max_trades_per_day (fst (step sw e)) = max_trades_per_day (fst sw)"
    by (cases e) (simp_all add: sw)
  show "trades_today (roll_day_if_needed (snd (step sw e)) (fst (step sw e))) =
           trades_today (roll_day_if_needed (snd sw) (fst sw)) + (if is_record_trade e then 1 else 0)"
  proof (cases e)
    case (Can_trade n m p)
    then show ?thesis by (simp add: sw)
  next
    case (Record_trade p)
    then show ?thesis by (simp add: sw roll_day_if_needed_def [of w "record_trade w s p"] Let_def)
  next
    case (Update_portfolio_metrics ok r dd)
    have "utc_day (snd (update_portfolio_metrics ok r dd (s, w))) = utc_day w" by simp
    moreover have "roll_day_if_needed w (fst (update_portfolio_metrics ok r dd (s, w)))
        = (roll_day_if_needed w (fst (update_portfolio_metrics ok r dd (s, w))))" by simp
    ultimately show ?thesis using Update_portfolio_metrics
      by (simp add: sw roll_day_if_needed_def Let_def)
  next
    case (External w')
    then show ?thesis using assms by (simp add: sw roll_day_same_day [of w' w])
  qed
qed

lemma run_counts:
  assumes "utc_day (snd sw) = d" and "same_day d es"
  shows "utc_day (snd (run sw es)) = d \<and>
         max_trades_per_day (fst (run sw es)) = max_trades_per_day (fst sw) \<and>
         trades_today (roll_day_if_needed (snd (run sw es)) (fst (run sw es))) =
           trades_today (roll_day_if_needed (snd sw) (fst sw)) + int (recorded es)"
  using assms
proof (induction es arbitrary: sw)
  case Nil
  then show ?case by (simp add: run_def recorded_def)
next
  case (Cons e es)
  have e: "on_day d e" and es: "same_day d es"
    using Cons.prems(2) by (simp_all add: same_day_def)
  have r: "run sw (e # es) = run (step sw e) es" by (simp add: run_def)
  note st = step_counts [OF Cons.prems(1) e]
  from Cons.IH [OF st(1) es] show ?case
    by (simp add: r st recorded_def)
qed

lemma can_trade_denies_at_cap:
  "max_trades_per_day s \<le> trades_today (roll_day_if_needed w s) \<Longrightarrow>
     \<not> allowed (snd (can_trade w s n m p))"
  by (simp add: can_trade_def Let_def)

text \<open>
  Claim C3. From any state the engine can reach, after events of one UTC day among
  which \<open>record_trade\<close> was called at least \<open>max_trades_per_day\<close> times, \<open>can_trade\<close> on
  that day is a denial. And when the clock's date differs from \<open>day_key\<close>, \<open>can_trade\<close>
  and \<open>record_trade\<close> work on the reset counters: \<open>record_trade\<close> leaves a global count
  of 1 and a per-pair map with the one pair at 1.
\<close>

theorem daily_cap_and_rollover:
  "(run (RiskEngine_init w0 cfg, w0) pre = (s, w) \<and> utc_day w = d \<and> same_day d es \<and>
      max_trades_per_day s \<le> int (recorded es) \<and> run (s, w) es = (s', w') \<longrightarrow>
      \<not> allowed (snd (can_trade w' s' n m p))) \<and>
   (utc_day v \<noteq> day_key t \<longrightarrow>
      roll_day_if_needed v t = reset_counters v t \<and>
      can_trade v t n m p = can_trade v (reset_counters v t) n m p \<and>
      record_trade v t p = record_trade v (reset_counters v t) p \<and>
      trades_today (record_trade v t p) = 1 \<and>
      trades_today_by_pair (record_trade v t p) =
        (if truthy_str p then [the p \<mapsto> 1] else Map.empty))"
proof -
  have cap: "\<not> allowed (snd (can_trade w' s' n m p))"
    if reach: "run (RiskEngine_init w0 cfg, w0) pre = (s, w)"
      and day: "utc_day w = d" "same_day d es"
      and n: "max_trades_per_day s \<le> int (recorded es)"
      and fin: "run (s, w) es = (s', w')"
  proof -
    have "0 \<le> trades_today (fst (run (RiskEngine_init w0 cfg, w0) pre))"
      by (rule run_nonneg) (simp add: init_nonneg)
    then have "0 \<le> trades_today (roll_day_if_needed w s)"
      using reach by (simp add: roll_day_nonneg)
    moreover have "max_trades_per_day s' = max_trades_per_day s \<and>
        trades_today (roll_day_if_needed w' s') =
          trades_today (roll_day_if_needed w s) + int (recorded es)"
      using run_counts [of "(s, w)" d es] day fin by simp
    ultimately have "max_trades_per_day s' \<le> trades_today (roll_day_if_needed w' s')"
      using n by linarith
    then show ?thesis by (rule can_trade_denies_at_cap)
  qed
  have roll: "roll_day_if_needed v t = reset_counters v t \<and>
      can_trade v t n m p = can_trade v (reset_counters v t) n m p \<and>
      record_trade v t p = record_trade v (reset_counters v t) p \<and>
      trades_today (record_trade v t p) = 1 \<and>
      trades_today_by_pair (record_trade v t p) =
        (if truthy_str p then [the p \<mapsto> 1] else Map.empty)"
    if "utc_day v \<noteq> day_key t"
    using that
    by (simp add: roll_day_if_needed_def reset_counters_def can_trade_def record_trade_def
        kill_switch_active_def paused_def get_pause_reason_def get_default_def Let_def)
  from cap roll show ?thesis by blast
qed

theorem daily_cap_and_rollover_witness:
  "same_day ''2024-05-01'' demo_three_trades \<and>
   max_trades_per_day demo_engine \<le> int (recorded demo_three_trades) \<and>
   \<not> allowed (snd (can_trade (snd demo_after_three) (fst demo_after_three)
                     5 ''dry_run'' (Some ''XBTUSD''))) \<and>
   utc_day demo_world_next \<noteq> day_key (fst demo_after_three) \<and>
   trades_today (fst demo_after_three) = 3 \<and>
   trades_today (record_trade demo_world_next (fst demo_after_three) (Some ''XBTUSD'')) = 1 \<and>
   trades_today_by_pair (record_trade demo_world_next (fst demo_after_three) (Some ''XBTUSD''))
     = [''XBTUSD'' \<mapsto> 1]"
proof -
  have reach: "run (RiskEngine_init demo_world demo_cfg, demo_world) [] = (demo_engine, demo_world)"
    by (simp add: run_def demo_engine_def)
  have day: "utc_day demo_world = ''2024-05-01''"
    by (simp add: demo_world_def)
  have sd: "same_day ''2024-05-01'' demo_three_trades"
    by code_simp
  have n: "max_trades_per_day demo_engine \<le> int (recorded demo_three_trades)"
    by code_simp
  have fin: "run (demo_engine, demo_world) demo_three_trades
               = (fst demo_after_three, snd demo_after_three)"
    by (simp add: demo_after_three_def)
  have neq: "utc_day demo_world_next \<noteq> day_key (fst demo_after_three)"
    by code_simp
  have three: "trades_today (fst demo_after_three) = 3"
    by code_simp
  have tr: "truthy_str (Some ''XBTUSD'')"
    by (simp add: truthy_str_def)
  note th = daily_cap_and_rollover [of demo_world demo_cfg "[]" demo_engine demo_world
        "''2024-05-01''" demo_three_trades "fst demo_after_three" "snd demo_after_three"
        5 "''dry_run''" "Some ''XBTUSD''" demo_world_next "fst demo_after_three"]
  have a: "\<not> allowed (snd (can_trade (snd demo_after_three) (fst demo_after_three)
                     5 ''dry_run'' (Some ''XBTUSD'')))"
    using th reach day sd n fin by blast
  have b: "trades_today (record_trade demo_world_next (fst demo_after_three) (Some ''XBTUSD'')) = 1"
    using th neq by blast
  have "trades_today_by_pair (record_trade demo_world_next (fst demo_after_three) (Some ''XBTUSD''))
     = (if truthy_str (Some ''XBTUSD'') then [the (Some ''XBTUSD'') \<mapsto> 1] else Map.empty)"
    using th neq by blast
  then have c: "trades_today_by_pair
        (record_trade demo_world_next (fst demo_after_three) (Some ''XBTUSD''))
     = [''XBTUSD'' \<mapsto> 1]"
    using tr by (simp only: if_True option.sel)
  from sd n a neq three b c show ?thesis by blast
qed

section \<open>Properties of the order evaluator\<close>

lemma calc_spread_pct_total:
  "calc_spread_pct bid ask =
     Inr (if (bid + ask) / 2 \<le> 0 then 999 else pct ((ask - bid) / ((bid + ask) / 2)))"
  by (simp add: calc_spread_pct_def py_truediv_def Let_def)

lemma slippage_pct_total:
  "slippage_pct ref current = Inr (if ref \<le> 0 then 999 else pct (\<bar>current - ref\<bar> / ref))"
  by (simp add: slippage_pct_def py_truediv_def)

lemma build_order_spread_blocked:
  assumes "resolve_pair_info k pair_key = Inr info" and "get_ticker k pair_key = Inr tk"
    and "calc_spread_pct (tk_bid tk) (tk_ask tk) = Inr spread"
    and "max_spread_pct cfg < spread"
  shows "\<exists>mt. build_order k cfg pair_key side bvo =
      Inr (blocked_order pair_key side (get_default (trading_order_type cfg) ''limit'')
             (trading_mode cfg) (quote_notional_usd cfg)
             (''blocked: spread '' @ format_fixed 6 spread @ ''% > max ''
                @ format_fixed 6 (max_spread_pct cfg) @ ''%''), mt)"
  using assms by (simp add: build_order_def slippage_pct_total Let_def)

lemma build_order_slippage_blocked:
  assumes "resolve_pair_info k pair_key = Inr info" and "get_ticker k pair_key = Inr tk"
    and "calc_spread_pct (tk_bid tk) (tk_ask tk) = Inr spread"
    and "slippage_pct ((tk_bid tk + tk_ask tk) / 2) (tk_last tk) = Inr slip"
    and "\<not> max_spread_pct cfg < spread" and "max_slippage_pct cfg < slip"
  shows "\<exists>mt. build_order k cfg pair_key side bvo =
      Inr (blocked_order pair_key side (get_default (trading_order_type cfg) ''limit'')
             (trading_mode cfg) (quote_notional_usd cfg)
             (''blocked: slippage '' @ format_fixed 6 slip @ ''% > max ''
                @ format_fixed 6 (max_slippage_pct cfg) @ ''%''), mt)"
  using assms by (simp add: build_order_def Let_def)

lemma build_order_sizing_blocked:
  assumes "resolve_pair_info k pair_key = Inr info" and "get_ticker k pair_key = Inr tk"
    and "calc_spread_pct (tk_bid tk) (tk_ask tk) = Inr spread"
    and "slippage_pct ((tk_bid tk + tk_ask tk) / 2) (tk_last tk) = Inr slip"
    and "\<not> max_spread_pct cfg < spread" and "\<not> max_slippage_pct cfg < slip"
    and "sizing_blocks side tk bvo"
  shows "\<exists>mt. build_order k cfg pair_key side bvo =
      Inr (blocked_order pair_key side (get_default (trading_order_type cfg) ''limit'')
             (trading_mode cfg) (if side = ''buy'' then quote_notional_usd cfg else 0)
             (if side = ''buy'' then ''blocked: invalid last''
              else ''blocked: no position volume''), mt)"
  using assms by (auto simp add: build_order_def Let_def sizing_blocks_def)

lemma build_order_sized:
  assumes "resolve_pair_info k pair_key = Inr info" and "get_ticker k pair_key = Inr tk"
    and "calc_spread_pct (tk_bid tk) (tk_ask tk) = Inr spread"
    and "slippage_pct ((tk_bid tk + tk_ask tk) / 2) (tk_last tk) = Inr slip"
    and "\<not> max_spread_pct cfg < spread" and "\<not> max_slippage_pct cfg < slip"
    and "\<not> sizing_blocks side tk bvo"
  shows "build_order k cfg pair_key side bvo =
     (if get_default (lot_decimals info) 8 < 0 then Inl ValueError
      else order_after_sizing cfg info tk
        \<lparr>m_bid = tk_bid tk, m_ask = tk_ask tk, m_last = tk_last tk,
         m_mid = (tk_bid tk + tk_ask tk) / 2, m_spread_pct = spread, m_slippage_pct = slip\<rparr>
        pair_key side (get_default (lot_decimals info) 8)
        (sized_volume cfg side tk bvo)
        (format_fixed (nat (get_default (lot_decimals info) 8)) (sized_volume cfg side tk bvo))
        (sized_notional cfg side tk bvo))"
  using assms
  by (auto simp add: build_order_def Let_def sizing_blocks_def sized_volume_def
      sized_notional_def py_truediv_def format_volume_def)

lemma order_after_sizing_not_below:
  assumes "\<not> below_ordermin info lot_dec v"
  shows "decision_reason
           (order_after_sizing cfg info tk mt pair_key side lot_dec v vol_str notional) =
         (if get_default (trading_order_type cfg) ''limit'' = ''limit'' \<and>
             get_default (cost_decimals info) 2 < 0
          then None else Some ''ok'')"
  using assms
  by (simp add: order_after_sizing_def Let_def format_dec_def decision_reason_def)

lemma order_after_sizing_below:
  assumes "below_ordermin info lot_dec v"
  shows "order_after_sizing cfg info tk mt pair_key side lot_dec v vol_str notional =
     Inr (\<lparr>od_pair = pair_key, od_side = side,
           od_ordertype = get_default (trading_order_type cfg) ''limit'',
           od_volume = vol_str, od_price = None, od_mode = trading_mode cfg,
           od_notional_usd = notional,
           od_reason = ''blocked: below ordermin ('' @ raw_text (the (ordermin info)) @ '')''\<rparr>, mt)"
  using assms by (simp add: order_after_sizing_def Let_def)

lemma order_after_sizing_ok:
  assumes "\<not> below_ordermin info lot_dec v" and "0 \<le> get_default (cost_decimals info) 2"
  shows "order_after_sizing cfg info tk mt pair_key side lot_dec v vol_str notional =
     Inr (\<lparr>od_pair = pair_key, od_side = side,
           od_ordertype = get_default (trading_order_type cfg) ''limit'',
           od_volume = vol_str,
           od_price = (if get_default (trading_order_type cfg) ''limit'' = ''limit''
                       then Some (format_fixed (nat (get_default (cost_decimals info) 2))
                                    (limit_price cfg side tk))
                       else None),
           od_mode = trading_mode cfg,
           od_notional_usd = notional, od_reason = ''ok''\<rparr>, mt)"
  using assms by (simp add: order_after_sizing_def Let_def format_dec_def limit_price_def)

text \<open>
  Claim C5. When the exchange answers, \<open>build_order\<close>'s reason is that of the first
  failing check, in the order spread, slippage, sizing, minimum size. The spread and
  slippage blocks are returned whatever the sizing inputs and the decimals are (no
  volume is computed before them), the minimum-size block whatever the cost decimals
  are (no price is computed before it). The reason is \<open>ok\<close> only if all four checks
  pass, and it is \<open>ok\<close> whenever they pass and the decimals can be formatted.
\<close>

theorem build_order_first_failing_check:
  assumes "resolve_pair_info k pair_key = Inr info" and "get_ticker k pair_key = Inr tk"
    and "calc_spread_pct (tk_bid tk) (tk_ask tk) = Inr spread"
    and "slippage_pct ((tk_bid tk + tk_ask tk) / 2) (tk_last tk) = Inr slip"
  shows
   "(max_spread_pct cfg < spread \<longrightarrow>
       decision_reason (build_order k cfg pair_key side bvo) =
         Some (''blocked: spread '' @ format_fixed 6 spread @ ''% > max ''
                 @ format_fixed 6 (max_spread_pct cfg) @ ''%'')) \<and>
    (\<not> max_spread_pct cfg < spread \<and> max_slippage_pct cfg < slip \<longrightarrow>
       decision_reason (build_order k cfg pair_key side bvo) =
         Some (''blocked: slippage '' @ format_fixed 6 slip @ ''% > max ''
                 @ format_fixed 6 (max_slippage_pct cfg) @ ''%'')) \<and>
    (\<not> max_spread_pct cfg < spread \<and> \<not> max_slippage_pct cfg < slip \<and>
     sizing_blocks side tk bvo \<longrightarrow>
       decision_reason (build_order k cfg pair_key side bvo) =
         Some (if side = ''buy'' then ''blocked: invalid last''
               else ''blocked: no position volume'')) \<and>
    (\<not> max_spread_pct cfg < spread \<and> \<not> max_slippage_pct cfg < slip \<and>
     \<not> sizing_blocks side tk bvo \<and> 0 \<le> get_default (lot_decimals info) 8 \<and>
     below_ordermin info (get_default (lot_decimals info) 8) (sized_volume cfg side tk bvo) \<longrightarrow>
       decision_reason (build_order k cfg pair_key side bvo) =
         Some (''blocked: below ordermin ('' @ raw_text (the (ordermin info)) @ '')'')) \<and>
    (decision_reason (build_order k cfg pair_key side bvo) = Some ''ok'' \<longrightarrow>
       \<not> max_spread_pct cfg < spread \<and> \<not> max_slippage_pct cfg < slip \<and>
       \<not> sizing_blocks side tk bvo \<and>
       \<not> below_ordermin info (get_default (lot_decimals info) 8)
            (sized_volume cfg side tk bvo)) \<and>
    (\<not> max_spread_pct cfg < spread \<and> \<not> max_slippage_pct cfg < slip \<and>
     \<not> sizing_blocks side tk bvo \<and>
     \<not> below_ordermin info (get_default (lot_decimals info) 8)
          (sized_volume cfg side tk bvo) \<and>
     0 \<le> get_default (lot_decimals info) 8 \<and> 0 \<le> get_default (cost_decimals info) 2 \<longrightarrow>
       decision_reason (build_order k cfg pair_key side bvo) = Some ''ok'')"
proof -
  note a = assms
  let ?r = "decision_reason (build_order k cfg pair_key side bvo)"
  let ?below = "below_ordermin info (get_default (lot_decimals info) 8)
                  (sized_volume cfg side tk bvo)"
  have c1: "max_spread_pct cfg < spread \<longrightarrow>
       ?r = Some (''blocked: spread '' @ format_fixed 6 spread @ ''% > max ''
                 @ format_fixed 6 (max_spread_pct cfg) @ ''%'')"
    using build_order_spread_blocked [OF a(1,2,3), of cfg side bvo]
    by (auto simp add: decision_reason_def blocked_order_def)
  have c2: "\<not> max_spread_pct cfg < spread \<and> max_slippage_pct cfg < slip \<longrightarrow>
       ?r = Some (''blocked: slippage '' @ format_fixed 6 slip @ ''% > max ''
                 @ format_fixed 6 (max_slippage_pct cfg) @ ''%'')"
    using build_order_slippage_blocked [OF a, of cfg side bvo]
    by (auto simp add: decision_reason_def blocked_order_def)
  have c3: "\<not> max_spread_pct cfg < spread \<and> \<not> max_slippage_pct cfg < slip \<and>
     sizing_blocks side tk bvo \<longrightarrow>
       ?r = Some (if side = ''buy'' then ''blocked: invalid last''
               else ''blocked: no position volume'')"
    using build_order_sizing_blocked [OF a, of cfg side bvo]
    by (auto simp add: decision_reason_def blocked_order_def)
  have c4: "\<not> max_spread_pct cfg < spread \<and> \<not> max_slippage_pct cfg < slip \<and>
     \<not> sizing_blocks side tk bvo \<and> 0 \<le> get_default (lot_decimals info) 8 \<and> ?below \<longrightarrow>
       ?r = Some (''blocked: below ordermin ('' @ raw_text (the (ordermin info)) @ '')'')"
    by (auto simp add: build_order_sized [OF a] order_after_sizing_below decision_reason_def)
  have c6: "\<not> max_spread_pct cfg < spread \<and> \<not> max_slippage_pct cfg < slip \<and>
     \<not> sizing_blocks side tk bvo \<and> \<not> ?below \<and>
     0 \<le> get_default (lot_decimals info) 8 \<and> 0 \<le> get_default (cost_decimals info) 2 \<longrightarrow>
       ?r = Some ''ok''"
    by (auto simp add: build_order_sized [OF a] order_after_sizing_not_below)
  have c5: "\<not> max_spread_pct cfg < spread \<and> \<not> max_slippage_pct cfg < slip \<and>
       \<not> sizing_blocks side tk bvo \<and> \<not> ?below" if ok: "?r = Some ''ok''"
  proof -
    have ns: "\<not> max_spread_pct cfg < spread" using c1 ok by auto
    have nl: "\<not> max_slippage_pct cfg < slip" using c2 ok ns by auto
    have nz: "\<not> sizing_blocks side tk bvo" using c3 ok ns nl by (auto split: if_splits)
    have lot: "0 \<le> get_default (lot_decimals info) 8"
      using ok ns nl nz
      by (auto simp add: build_order_sized [OF a] decision_reason_def split: if_splits)
    have "\<not> ?below" using c4 ok ns nl nz lot by auto
    with ns nl nz show ?thesis by simp
  qed
  from c1 c2 c3 c4 c5 c6 show ?thesis by blast
qed

theorem build_order_first_failing_check_witness:
  "resolve_pair_info demo_kraken ''XBTUSD'' =
     Inr \<lparr>lot_decimals = Some 8, cost_decimals = Some 1,
          ordermin = Some \<lparr>raw_text = ''0.0001'', raw_float = Some 0.0001\<rparr>\<rparr> \<and>
   max_spread_pct (demo_order_cfg ''live'') < 2000 / 210 \<and>
   decision_reason (build_order demo_kraken_wide (demo_order_cfg ''live'') ''XBTUSD'' ''buy'' None)
     = Some ''blocked: spread 9.523810% > max 0.300000%'' \<and>
   sizing_blocks ''sell'' \<lparr>tk_bid = 50000, tk_ask = 50010, tk_last = 50005\<rparr> None \<and>
   decision_reason (build_order demo_kraken (demo_order_cfg ''live'') ''XBTUSD'' ''sell'' None)
     = Some ''blocked: no position volume'' \<and>
   below_ordermin \<lparr>lot_decimals = Some 8, cost_decimals = Some 1,
          ordermin = Some \<lparr>raw_text = ''0.0001'', raw_float = Some 0.0001\<rparr>\<rparr> 8 (0.00004) \<and>
   decision_reason (build_order demo_kraken (demo_order_cfg ''live'') ''XBTUSD'' ''sell''
                      (Some 0.00004))
     = Some ''blocked: below ordermin (0.0001)'' \<and>
   decision_reason (build_order demo_kraken (demo_order_cfg ''live'') ''XBTUSD'' ''buy'' None)
     = Some ''ok''"
proof -
  let ?info = "\<lparr>lot_decimals = Some 8, cost_decimals = Some 1,
          ordermin = Some \<lparr>raw_text = ''0.0001'', raw_float = Some 0.0001\<rparr>\<rparr>"
  let ?tk = "\<lparr>tk_bid = 50000, tk_ask = 50010, tk_last = 50005\<rparr>"
  let ?wide = "\<lparr>tk_bid = 100, tk_ask = 110, tk_last = 105\<rparr>"
  let ?cfg = "demo_order_cfg ''live''"
  have i: "resolve_pair_info demo_kraken ''XBTUSD'' = Inr ?info"
    and iw: "resolve_pair_info demo_kraken_wide ''XBTUSD'' = Inr ?info"
    and t: "get_ticker demo_kraken ''XBTUSD'' = Inr ?tk"
    and tw: "get_ticker demo_kraken_wide ''XBTUSD'' = Inr ?wide"
    by (simp_all add: demo_kraken_def demo_kraken_wide_def)
  have sp: "calc_spread_pct (tk_bid ?tk) (tk_ask ?tk) = Inr (2000 / 100010)"
    and sl: "slippage_pct ((tk_bid ?tk + tk_ask ?tk) / 2) (tk_last ?tk) = Inr 0"
    and spw: "calc_spread_pct (tk_bid ?wide) (tk_ask ?wide) = Inr (2000 / 210)"
    and slw: "slippage_pct ((tk_bid ?wide + tk_ask ?wide) / 2) (tk_last ?wide) = Inr 0"
    by (simp_all add: calc_spread_pct_def slippage_pct_def py_truediv_def pct_def)
  have f: "format_fixed 6 (2000 / 210) = ''9.523810''" "format_fixed 6 (max_spread_pct ?cfg) = ''0.300000''"
    by code_simp+
  have cfg: "max_spread_pct ?cfg < 2000 / 210" "\<not> max_spread_pct ?cfg < 2000 / 100010"
    "\<not> max_slippage_pct ?cfg < 0"
    by (simp_all add: demo_order_cfg_def)
  have sz: "sizing_blocks ''sell'' ?tk None" "\<not> sizing_blocks ''sell'' ?tk (Some 0.00004)"
    "\<not> sizing_blocks ''buy'' ?tk None"
    by (simp_all add: sizing_blocks_def)
  have dec: "0 \<le> get_default (lot_decimals ?info) 8" "0 \<le> get_default (cost_decimals ?info) 2"
    "get_default (lot_decimals ?info) 8 = 8" "raw_text (the (ordermin ?info)) = ''0.0001''"
    by (simp_all add: get_default_def)
  have bl: "below_ordermin ?info 8 (0.00004)"
    "below_ordermin ?info 8 (sized_volume ?cfg ''sell'' ?tk (Some 0.00004))"
    "\<not> below_ordermin ?info 8 (sized_volume ?cfg ''buy'' ?tk None)"
    by code_simp+
  note thw = build_order_first_failing_check [OF iw tw spw slw, of ?cfg "''buy''" None]
  note ths = build_order_first_failing_check [OF i t sp sl, of ?cfg "''sell''" None]
  note thb = build_order_first_failing_check [OF i t sp sl, of ?cfg "''sell''" "Some 0.00004"]
  note tho = build_order_first_failing_check [OF i t sp sl, of ?cfg "''buy''" None]
  have "decision_reason (build_order demo_kraken_wide ?cfg ''XBTUSD'' ''buy'' None)
     = Some (''blocked: spread '' @ format_fixed 6 (2000 / 210) @ ''% > max ''
                 @ format_fixed 6 (max_spread_pct ?cfg) @ ''%'')"
    using thw cfg(1) by blast
  then have w1: "decision_reason (build_order demo_kraken_wide ?cfg ''XBTUSD'' ''buy'' None)
     = Some ''blocked: spread 9.523810% > max 0.300000%''"
    by (simp only: f append.simps)
  have "decision_reason (build_order demo_kraken ?cfg ''XBTUSD'' ''sell'' None)
     = Some (if ''sell'' = ''buy'' then ''blocked: invalid last''
               else ''blocked: no position volume'')"
    using ths cfg(2,3) sz(1) by blast
  then have w2: "decision_reason (build_order demo_kraken ?cfg ''XBTUSD'' ''sell'' None)
     = Some ''blocked: no position volume''"
    by simp
  have "decision_reason (build_order demo_kraken ?cfg ''XBTUSD'' ''sell'' (Some 0.00004))
     = Some (''blocked: below ordermin ('' @ raw_text (the (ordermin ?info)) @ '')'')"
    using thb cfg(2,3) sz(2) dec(1) bl(2) unfolding dec(3) by blast
  then have w3: "decision_reason (build_order demo_kraken ?cfg ''XBTUSD'' ''sell'' (Some 0.00004))
     = Some ''blocked: below ordermin (0.0001)''"
    by simp
  have w4: "decision_reason (build_order demo_kraken ?cfg ''XBTUSD'' ''buy'' None) = Some ''ok''"
    using tho cfg(2,3) sz(3) dec(1,2) bl(3) unfolding dec(3) by blast
  from i cfg(1) w1 sz(1) w2 bl(1) w3 w4 show ?thesis by blast
qed

text \<open>
  Claim C6. The spread and slippage functions never raise: they return a number for
  every input, and the sentinel 999 when the mid price (the reference price) is not
  positive, where the division would be by zero or by a negative number. The default
  thresholds are below 999, and with a threshold below 999 an order whose mid price is
  not positive is blocked.
\<close>

theorem sentinel_guards_division:
  "(\<exists>v. calc_spread_pct bid ask = Inr v) \<and>
   (\<exists>v. slippage_pct ref current = Inr v) \<and>
   ((bid + ask) / 2 \<le> 0 \<longrightarrow> calc_spread_pct bid ask = Inr 999) \<and>
   (ref \<le> 0 \<longrightarrow> slippage_pct ref current = Inr 999) \<and>
   default_max_spread_pct < 999 \<and> default_max_slippage_pct < 999 \<and>
   (resolve_pair_info k pair_key = Inr info \<and> get_ticker k pair_key = Inr tk \<and>
    (tk_bid tk + tk_ask tk) / 2 \<le> 0 \<and>
    (max_spread_pct cfg < 999 \<or> max_slippage_pct cfg < 999) \<longrightarrow>
      decision_reason (build_order k cfg pair_key side bvo) =
        Some (if max_spread_pct cfg < 999
              then ''blocked: spread '' @ format_fixed 6 999 @ ''% > max ''
                     @ format_fixed 6 (max_spread_pct cfg) @ ''%''
              else ''blocked: slippage '' @ format_fixed 6 999 @ ''% > max ''
                     @ format_fixed 6 (max_slippage_pct cfg) @ ''%''))"
proof -
  have blk: "decision_reason (build_order k cfg pair_key side bvo) =
        Some (if max_spread_pct cfg < 999
              then ''blocked: spread '' @ format_fixed 6 999 @ ''% > max ''
                     @ format_fixed 6 (max_spread_pct cfg) @ ''%''
              else ''blocked: slippage '' @ format_fixed 6 999 @ ''% > max ''
                     @ format_fixed 6 (max_slippage_pct cfg) @ ''%'')"
    if h: "resolve_pair_info k pair_key = Inr info" "get_ticker k pair_key = Inr tk"
      "(tk_bid tk + tk_ask tk) / 2 \<le> 0"
      "max_spread_pct cfg < 999 \<or> max_slippage_pct cfg < 999"
  proof -
    have sp: "calc_spread_pct (tk_bid tk) (tk_ask tk) = Inr 999"
      using h(3) by (simp add: calc_spread_pct_total)
    have sl: "slippage_pct ((tk_bid tk + tk_ask tk) / 2) (tk_last tk) = Inr 999"
      using h(3) by (simp add: slippage_pct_total)
    show ?thesis
    proof (cases "max_spread_pct cfg < 999")
      case True
      then show ?thesis
        using build_order_spread_blocked [OF h(1,2) sp, of cfg side bvo]
        by (auto simp add: decision_reason_def blocked_order_def)
    next
      case False
      then have "max_slippage_pct cfg < 999" using h(4) by simp
      then show ?thesis
        using False build_order_slippage_blocked [OF h(1,2) sp sl, of cfg side bvo]
        by (auto simp add: decision_reason_def blocked_order_def)
    qed
  qed
  have d: "default_max_spread_pct < 999" "default_max_slippage_pct < 999"
    by (simp_all add: default_max_spread_pct_def default_max_slippage_pct_def)
  show ?thesis
    using blk d by (simp add: calc_spread_pct_total slippage_pct_total)
qed

theorem sentinel_guards_division_witness:
  "((0::real) + 0) / 2 \<le> 0 \<and> calc_spread_pct 0 0 = Inr 999 \<and>
   slippage_pct 0 0 = Inr 999 \<and>
   max_spread_pct (demo_order_cfg ''live'') = default_max_spread_pct \<and>
   max_slippage_pct (demo_order_cfg ''live'') = default_max_slippage_pct \<and>
   decision_reason (build_order demo_kraken_flat (demo_order_cfg ''live'') ''XBTUSD'' ''buy'' None)
     = Some ''blocked: spread 999.000000% > max 0.300000%''"
proof -
  let ?info = "\<lparr>lot_decimals = Some 8, cost_decimals = Some 1,
          ordermin = Some \<lparr>raw_text = ''0.0001'', raw_float = Some 0.0001\<rparr>\<rparr>"
  let ?tk = "\<lparr>tk_bid = 0, tk_ask = 0, tk_last = 0\<rparr>"
  let ?cfg = "demo_order_cfg ''live''"
  have i: "resolve_pair_info demo_kraken_flat ''XBTUSD'' = Inr ?info"
    and t: "get_ticker demo_kraken_flat ''XBTUSD'' = Inr ?tk"
    by (simp_all add: demo_kraken_def demo_kraken_flat_def)
  have m: "(tk_bid ?tk + tk_ask ?tk) / 2 \<le> 0" by simp
  have c: "max_spread_pct ?cfg = default_max_spread_pct"
    "max_slippage_pct ?cfg = default_max_slippage_pct" "max_spread_pct ?cfg < 999"
    by (simp_all add: demo_order_cfg_def default_max_spread_pct_def default_max_slippage_pct_def)
  have f: "format_fixed 6 999 = ''999.000000''" "format_fixed 6 (max_spread_pct ?cfg) = ''0.300000''"
    by code_simp+
  note th = sentinel_guards_division [of 0 0 0 0 demo_kraken_flat "''XBTUSD''" ?info ?tk ?cfg
      "''buy''" None]
  have s: "calc_spread_pct 0 0 = Inr 999" "slippage_pct 0 0 = Inr 999"
    using th by simp_all
  have b: "decision_reason (build_order demo_kraken_flat ?cfg ''XBTUSD'' ''buy'' None)
     = Some ''blocked: spread 999.000000% > max 0.300000%''"
    using th i t m c(3) f by simp
  from s c(1,2) b show ?thesis by simp
qed

text \<open>
  Claim C4, at a dry-run fill: \<open>place_or_preview\<close> returns the reason \<open>dry-run\<close> and
  the engine's counters are as before (no \<open>record_trade\<close>), while the same order in live
  mode is recorded once.
\<close>

theorem dry_run_fill_not_recorded:
  "decision_reason (fst (place_or_preview demo_kraken (demo_order_cfg ''dry_run'')
      demo_world demo_engine ''XBTUSD'' ''buy'' None)) = Some ''dry-run'' \<and>
   trades_today demo_engine = 0 \<and>
   trades_today (snd (place_or_preview demo_kraken (demo_order_cfg ''dry_run'')
      demo_world demo_engine ''XBTUSD'' ''buy'' None)) = 0 \<and>
   trades_today_by_pair (snd (place_or_preview demo_kraken (demo_order_cfg ''dry_run'')
      demo_world demo_engine ''XBTUSD'' ''buy'' None)) ''XBTUSD'' = None \<and>
   decision_reason (fst (place_or_preview demo_kraken (demo_order_cfg ''live'')
      demo_world_live demo_engine ''XBTUSD'' ''buy'' None)) = Some ''LIVE order placed'' \<and>
   trades_today (snd (place_or_preview demo_kraken (demo_order_cfg ''live'')
      demo_world_live demo_engine ''XBTUSD'' ''buy'' None)) = 1 \<and>
   trades_today_by_pair (snd (place_or_preview demo_kraken (demo_order_cfg ''live'')
      demo_world_live demo_engine ''XBTUSD'' ''buy'' None)) ''XBTUSD'' = Some 1"
  by code_simp

section \<open>Properties of the PnL analytics\<close>

lemma pnl_loop_Cons [simp]:
  "pnl_loop marks st (t # ts) = pnl_loop marks (pnl_step marks st t) ts"
  by (simp add: pnl_loop_def)

lemma pnl_loop_Nil [simp]: "pnl_loop marks st [] = st"
  by (simp add: pnl_loop_def)

lemma pnl_step_keys:
  "fst ` set (per_pair (pnl_step marks st t)) = insert (t_pair t) (fst ` set (per_pair st))"
  "fst ` set (open_pos (pnl_step marks st t)) \<subseteq> insert (t_pair t) (fst ` set (open_pos st))"
  by (simp_all add: pnl_step_def Let_def dom_update subset_insertI)

lemma pnl_loop_keys:
  "fst ` set (open_pos st) \<subseteq> fst ` set (per_pair st) \<Longrightarrow>
   fst ` set (open_pos (pnl_loop marks st ts)) \<subseteq> fst ` set (per_pair (pnl_loop marks st ts))"
proof (induction ts arbitrary: st)
  case Nil
  then show ?case by simp
next
  case (Cons t ts)
  have "fst ` set (open_pos (pnl_step marks st t)) \<subseteq> insert (t_pair t) (fst ` set (open_pos st))"
    by (rule pnl_step_keys)
  also have "\<dots> \<subseteq> insert (t_pair t) (fst ` set (per_pair st))"
    using Cons.prems by (rule insert_mono)
  also have "\<dots> = fst ` set (per_pair (pnl_step marks st t))"
    by (simp only: pnl_step_keys)
  finally show ?case
    by (simp only: pnl_loop_Cons Cons.IH)
qed

lemma unrealized_step_total:
  assumes "fst item \<in> fst ` set pp"
  shows "\<exists>pp' pf'. unrealized_step marks (pp, pf) item = Inr (pp', pf') \<and>
           fst ` set pp' = fst ` set pp"
proof -
  obtain pair pos where item: "item = (pair, pos)" by (cases item)
  have mem: "pair \<in> fst ` set pp" using assms item by simp
  then have "map_of pp pair \<noteq> None"
    by (simp add: map_of_eq_None_iff)
  then obtain ps where ps: "map_of pp pair = Some ps" by auto
  show ?thesis
  proof (cases "0 < vol pos \<and> 0 < entry_px pos \<and> 0 < get_default (marks pair) 0")
    case True
    then show ?thesis
      using mem by (simp add: unrealized_step_def item ps Let_def dom_update insert_absorb)
  next
    case False
    have "unrealized_step marks (pp, pf) item = Inr (pp, pf)"
      unfolding unrealized_step_def item Let_def using False
      by (simp only: prod.case if_False)
    then show ?thesis by simp
  qed
qed

lemma unrealized_loop_total:
  "fst ` set items \<subseteq> fst ` set pp \<Longrightarrow>
   \<exists>pp' pf'. unrealized_loop marks (pp, pf) items = Inr (pp', pf')"
proof (induction items arbitrary: pp pf)
  case Nil
  then show ?case by simp
next
  case (Cons item items)
  from Cons.prems have "fst item \<in> fst ` set pp" by simp
  from unrealized_step_total [OF this, of marks pf]
  obtain pp' pf' where s: "unrealized_step marks (pp, pf) item = Inr (pp', pf')"
    and k: "fst ` set pp' = fst ` set pp" by blast
  from Cons.prems k have "fst ` set items \<subseteq> fst ` set pp'" by simp
  from Cons.IH [OF this, of pf'] show ?case by (simp add: s)
qed

lemma compute_pnl_total: "\<exists>d. compute_pnl now trades marks = Inr d"
proof -
  let ?st = "pnl_loop marks pnl_init trades"
  have "fst ` set (open_pos ?st) \<subseteq> fst ` set (per_pair ?st)"
    by (rule pnl_loop_keys) (simp add: pnl_init_def)
  from unrealized_loop_total [OF this, of marks "portfolio ?st"]
  obtain pp pf where "unrealized_loop marks (per_pair ?st, portfolio ?st) (open_pos ?st) = Inr (pp, pf)"
    by blast
  then show ?thesis by (simp add: compute_pnl_def Let_def)
qed

lemma stats_of_update [simp]:
  "stats_of marks (st\<lparr>per_pair := AList.update k ps (per_pair st)\<rparr>) k = ps"
  by (simp add: stats_of_def update_conv')

lemma stats_of_cong_fields [simp]:
  "stats_of marks (st\<lparr>portfolio := a\<rparr>) k = stats_of marks st k"
  "stats_of marks (st\<lparr>open_pos := b\<rparr>) k = stats_of marks st k"
  "stats_of marks (st\<lparr>equity_points := c\<rparr>) k = stats_of marks st k"
  "stats_of marks (st\<lparr>realized_equity := d\<rparr>) k = stats_of marks st k"
  "stats_of marks (st\<lparr>peak_equity := e\<rparr>) k = stats_of marks st k"
  "stats_of marks (st\<lparr>max_dd := f\<rparr>) k = stats_of marks st k"
  by (simp_all add: stats_of_def)

lemma pnl_step_close:
  assumes "t_side t = ''sell''" and "map_of (open_pos st) (t_pair t) = Some l" and "0 < vol l"
  shows "pnl_step marks st t =
     (let gain = (t_price t - entry_px l) *
                   (if 0 < t_volume t then min (vol l) (t_volume t) else vol l);
          ps = (stats_of marks st (t_pair t))\<lparr>pp_last_event_ts := t_ts t\<rparr>;
          ps1 = ps\<lparr>pp_realized_pnl_usd := pp_realized_pnl_usd ps + gain,
                    pp_trades_closed := pp_trades_closed ps + 1\<rparr>;
          pf1 = (portfolio st)
                  \<lparr>pf_realized_pnl_usd := pf_realized_pnl_usd (portfolio st) + gain,
                   pf_trades_closed := pf_trades_closed (portfolio st) + 1\<rparr>;
          ps2 = (if 0 \<le> gain then ps1\<lparr>pp_wins := pp_wins ps1 + 1\<rparr>
                 else ps1\<lparr>pp_losses := pp_losses ps1 + 1\<rparr>);
          pf2 = (if 0 \<le> gain then pf1\<lparr>pf_wins := pf_wins pf1 + 1\<rparr>
                 else pf1\<lparr>pf_losses := pf_losses pf1 + 1\<rparr>)
      in st\<lparr>per_pair := AList.update (t_pair t)
                            (ps2\<lparr>pp_open_position := False, pp_open_volume := 0,
                                 pp_entry_price := 0\<rparr>) (per_pair st),
            portfolio := pf2,
            open_pos := AList.update (t_pair t) zero_lot (open_pos st),
            equity_points := equity_points st @ [(t_ts t, realized_equity st + gain)],
            realized_equity := realized_equity st + gain,
            peak_equity := max (peak_equity st) (realized_equity st + gain),
            max_dd := max (max_dd st)
                        (max (peak_equity st) (realized_equity st + gain)
                           - (realized_equity st + gain))\<rparr>)"
  using assms by (simp add: pnl_step_def lot_open_def Let_def)

lemma pnl_step_sell_no_lot:
  assumes "t_side t = ''sell''" and "\<not> lot_open (open_pos st) (t_pair t)"
  shows "pnl_step marks st t =
     st\<lparr>per_pair := AList.update (t_pair t)
                        ((stats_of marks st (t_pair t))\<lparr>pp_last_event_ts := t_ts t\<rparr>)
                        (per_pair st)\<rparr>"
  using assms by (simp add: pnl_step_def Let_def)

text \<open>
  Claim C7, as the code has it. A sell processed while a lot is open for its pair adds
  \<open>(sell price - entry price) * close volume\<close> to the realized PnL of the portfolio and
  of the pair, where the close volume is \<open>min(open volume, sell volume)\<close> when the sell
  volume is positive and the whole open volume otherwise; the lot is then cleared (a
  zero lot in \<open>open_pos\<close>, open volume and entry price zero in the statistics). A sell
  with no open lot for its pair changes nothing but the pair's \<open>last_event_ts\<close>.
\<close>

theorem sell_closes_whole_lot:
  "(t_side t = ''sell'' \<and> map_of (open_pos st) (t_pair t) = Some l \<and> 0 < vol l \<longrightarrow>
      pf_realized_pnl_usd (portfolio (pnl_step marks st t)) =
        pf_realized_pnl_usd (portfolio st) +
          (t_price t - entry_px l) * (if 0 < t_volume t then min (vol l) (t_volume t) else vol l) \<and>
      pp_realized_pnl_usd (stats_of marks (pnl_step marks st t) (t_pair t)) =
        pp_realized_pnl_usd (stats_of marks st (t_pair t)) +
          (t_price t - entry_px l) * (if 0 < t_volume t then min (vol l) (t_volume t) else vol l) \<and>
      map_of (open_pos (pnl_step marks st t)) (t_pair t) = Some zero_lot \<and>
      \<not> lot_open (open_pos (pnl_step marks st t)) (t_pair t) \<and>
      \<not> pp_open_position (stats_of marks (pnl_step marks st t) (t_pair t)) \<and>
      pp_open_volume (stats_of marks (pnl_step marks st t) (t_pair t)) = 0 \<and>
      pp_entry_price (stats_of marks (pnl_step marks st t) (t_pair t)) = 0) \<and>
   (t_side t = ''sell'' \<and> \<not> lot_open (open_pos st) (t_pair t) \<longrightarrow>
      portfolio (pnl_step marks st t) = portfolio st \<and>
      equity_points (pnl_step marks st t) = equity_points st \<and>
      realized_equity (pnl_step marks st t) = realized_equity st \<and>
      peak_equity (pnl_step marks st t) = peak_equity st \<and>
      max_dd (pnl_step marks st t) = max_dd st \<and>
      open_pos (pnl_step marks st t) = open_pos st \<and>
      (stats_of marks (pnl_step marks st t) (t_pair t)) =
        (stats_of marks st (t_pair t))\<lparr>pp_last_event_ts := t_ts t\<rparr> \<and>
      (\<forall>q. q \<noteq> t_pair t \<longrightarrow>
         map_of (per_pair (pnl_step marks st t)) q = map_of (per_pair st) q))"
proof -
  have a: "pf_realized_pnl_usd (portfolio (pnl_step marks st t)) =
        pf_realized_pnl_usd (portfolio st) +
          (t_price t - entry_px l) * (if 0 < t_volume t then min (vol l) (t_volume t) else vol l) \<and>
      pp_realized_pnl_usd (stats_of marks (pnl_step marks st t) (t_pair t)) =
        pp_realized_pnl_usd (stats_of marks st (t_pair t)) +
          (t_price t - entry_px l) * (if 0 < t_volume t then min (vol l) (t_volume t) else vol l) \<and>
      map_of (open_pos (pnl_step marks st t)) (t_pair t) = Some zero_lot \<and>
      \<not> lot_open (open_pos (pnl_step marks st t)) (t_pair t) \<and>
      \<not> pp_open_position (stats_of marks (pnl_step marks st t) (t_pair t)) \<and>
      pp_open_volume (stats_of marks (pnl_step marks st t) (t_pair t)) = 0 \<and>
      pp_entry_price (stats_of marks (pnl_step marks st t) (t_pair t)) = 0"
    if h: "t_side t = ''sell''" "map_of (open_pos st) (t_pair t) = Some l" "0 < vol l"
    unfolding pnl_step_close [OF h]
    by (simp add: Let_def update_conv' lot_open_def zero_lot_def)
  have b: "portfolio (pnl_step marks st t) = portfolio st \<and>
      equity_points (pnl_step marks st t) = equity_points st \<and>
      realized_equity (pnl_step marks st t) = realized_equity st \<and>
      peak_equity (pnl_step marks st t) = peak_equity st \<and>
      max_dd (pnl_step marks st t) = max_dd st \<and>
      open_pos (pnl_step marks st t) = open_pos st \<and>
      (stats_of marks (pnl_step marks st t) (t_pair t)) =
        (stats_of marks st (t_pair t))\<lparr>pp_last_event_ts := t_ts t\<rparr> \<and>
      (\<forall>q. q \<noteq> t_pair t \<longrightarrow>
         map_of (per_pair (pnl_step marks st t)) q = map_of (per_pair st) q)"
    if h: "t_side t = ''sell''" "\<not> lot_open (open_pos st) (t_pair t)"
    unfolding pnl_step_sell_no_lot [OF h]
    by (simp add: update_conv')
  from a b show ?thesis by blast
qed

theorem sell_closes_whole_lot_witness:
  "t_side demo_sell = ''sell'' \<and>
   map_of (open_pos demo_open_state) (t_pair demo_sell) =
     Some \<lparr>vol = 0.001, entry_px = 50000, entry_ts = 1, cost_usd = 50\<rparr> \<and>
   pf_realized_pnl_usd (portfolio demo_open_state) = 0 \<and>
   pf_realized_pnl_usd (portfolio (pnl_step Map.empty demo_open_state demo_sell)) = 1 \<and>
   map_of (open_pos (pnl_step Map.empty demo_open_state demo_sell)) ''XBTUSD'' = Some zero_lot \<and>
   \<not> lot_open (open_pos pnl_init) (t_pair demo_sell) \<and>
   portfolio (pnl_step Map.empty pnl_init demo_sell) = portfolio pnl_init \<and>
   equity_points (pnl_step Map.empty pnl_init demo_sell) = []"
proof -
  let ?l = "\<lparr>vol = 0.001, entry_px = 50000, entry_ts = 1, cost_usd = 50\<rparr>"
  have s: "t_side demo_sell = ''sell''" "t_pair demo_sell = ''XBTUSD''"
    "t_price demo_sell = 51000" "t_volume demo_sell = 0.001"
    by (simp_all add: demo_sell_def)
  have l: "map_of (open_pos demo_open_state) (t_pair demo_sell) = Some ?l"
    by code_simp
  have v: "0 < vol ?l" by simp
  have z: "pf_realized_pnl_usd (portfolio demo_open_state) = 0"
    by code_simp
  have n: "\<not> lot_open (open_pos pnl_init) (t_pair demo_sell)"
    by code_simp
  have e: "equity_points pnl_init = []"
    by (simp add: pnl_init_def)
  note th1 = sell_closes_whole_lot [of demo_sell demo_open_state ?l Map.empty]
  note th2 = sell_closes_whole_lot [of demo_sell pnl_init ?l Map.empty]
  have g: "pf_realized_pnl_usd (portfolio (pnl_step Map.empty demo_open_state demo_sell)) =
        pf_realized_pnl_usd (portfolio demo_open_state) +
          (t_price demo_sell - entry_px ?l) *
          (if 0 < t_volume demo_sell then min (vol ?l) (t_volume demo_sell) else vol ?l)"
    using th1 s(1) l v by blast
  have g1: "pf_realized_pnl_usd (portfolio (pnl_step Map.empty demo_open_state demo_sell)) = 1"
    unfolding g z s by simp
  have c: "map_of (open_pos (pnl_step Map.empty demo_open_state demo_sell)) (t_pair demo_sell)
             = Some zero_lot"
    using th1 s(1) l v by blast
  have p: "portfolio (pnl_step Map.empty pnl_init demo_sell) = portfolio pnl_init"
    "equity_points (pnl_step Map.empty pnl_init demo_sell) = equity_points pnl_init"
    using th2 s(1) n by blast+
  from s(1) l z g1 c n p show ?thesis unfolding e s(2) by blast
qed

text \<open>
  A sell row with volume 0 closes the whole lot: the realized PnL goes up by
  \<open>(51000 - 50000) * 0.001 = 1\<close>, not by \<open>(51000 - 50000) * min(0.001, 0) = 0\<close>.
\<close>

theorem sell_volume_counterexample:
  "t_side demo_sell_zero_volume = ''sell'' \<and>
   map_of (open_pos demo_open_state) (t_pair demo_sell_zero_volume) =
     Some \<lparr>vol = 0.001, entry_px = 50000, entry_ts = 1, cost_usd = 50\<rparr> \<and>
   pf_realized_pnl_usd (portfolio demo_open_state) = 0 \<and>
   pf_realized_pnl_usd (portfolio (pnl_step Map.empty demo_open_state demo_sell_zero_volume)) = 1 \<and>
   (t_price demo_sell_zero_volume - 50000) * min 0.001 (t_volume demo_sell_zero_volume) = 0 \<and>
   pf_realized_pnl_usd (portfolio (pnl_step Map.empty demo_open_state demo_sell_zero_volume)) \<noteq>
     pf_realized_pnl_usd (portfolio demo_open_state) +
       (t_price demo_sell_zero_volume - 50000) * min 0.001 (t_volume demo_sell_zero_volume)"
  by code_simp

text \<open>
  Claim C8, as the code has it. \<open>compute_pnl\<close> always returns a document, and two calls
  on the same trades and marks return documents that agree in every field but \<open>ts\<close>,
  which is the clock's reading at each call.
\<close>

theorem compute_pnl_clock_only_in_ts:
  "\<exists>d. compute_pnl now1 trades marks = Inr d \<and> doc_ts d = now1 \<and>
        compute_pnl now2 trades marks = Inr (d\<lparr>doc_ts := now2\<rparr>)"
proof -
  obtain d where d: "compute_pnl now1 trades marks = Inr d"
    using compute_pnl_total by blast
  then have "doc_ts d = now1 \<and> compute_pnl now2 trades marks = Inr (d\<lparr>doc_ts := now2\<rparr>)"
    by (auto simp add: compute_pnl_def Let_def split: sum.splits)
  with d show ?thesis by blast
qed

theorem compute_pnl_clock_only_in_ts_witness:
  "\<exists>d. compute_pnl 1700000000 [demo_buy, demo_sell] Map.empty = Inr d \<and>
        doc_ts d = 1700000000 \<and>
        pf_realized_pnl_usd (doc_portfolio d) = 1 \<and> pf_trades_closed (doc_portfolio d) = 1 \<and>
        pf_wins (doc_portfolio d) = 1 \<and> pf_win_rate (doc_portfolio d) = 1 \<and>
        pf_max_drawdown_usd (doc_portfolio d) = 0 \<and>
        doc_equity_curve_realized d = [(2, 1)] \<and>
        compute_pnl 1700000001 [demo_buy, demo_sell] Map.empty = Inr (d\<lparr>doc_ts := 1700000001\<rparr>)"
proof -
  obtain d where d: "compute_pnl 1700000000 [demo_buy, demo_sell] Map.empty = Inr d"
    and ts: "doc_ts d = 1700000000"
    and d': "compute_pnl 1700000001 [demo_buy, demo_sell] Map.empty = Inr (d\<lparr>doc_ts := 1700000001\<rparr>)"
    using compute_pnl_clock_only_in_ts [of 1700000000 "[demo_buy, demo_sell]" Map.empty 1700000001]
    by blast
  have "compute_pnl 1700000000 [demo_buy, demo_sell] Map.empty =
     Inr \<lparr>doc_ts = 1700000000,
          doc_portfolio = \<lparr>pf_realized_pnl_usd = 1, pf_unrealized_pnl_usd = 0, pf_net_pnl_usd = 1,
                            pf_wins = 1, pf_losses = 0, pf_trades_closed = 1, pf_win_rate = 1,
                            pf_max_drawdown_usd = 0\<rparr>,
          doc_pairs = [(''XBTUSD'',
                        \<lparr>pp_realized_pnl_usd = 1, pp_unrealized_pnl_usd = 0, pp_net_pnl_usd = 1,
                         pp_wins = 1, pp_losses = 0, pp_trades_closed = 1, pp_win_rate = 1,
                         pp_open_position = False, pp_open_volume = 0, pp_entry_price = 0,
                         pp_mark_price = 0, pp_last_event_ts = 2\<rparr>)],
          doc_equity_curve_realized = [(2, 1)]\<rparr>"
    by code_simp
  with d have "pf_realized_pnl_usd (doc_portfolio d) = 1 \<and> pf_trades_closed (doc_portfolio d) = 1 \<and>
        pf_wins (doc_portfolio d) = 1 \<and> pf_win_rate (doc_portfolio d) = 1 \<and>
        pf_max_drawdown_usd (doc_portfolio d) = 0 \<and>
        doc_equity_curve_realized d = [(2, 1)]"
    by auto
  with d ts d' show ?thesis by blast
qed

text \<open>Two calls on the same inputs, one second apart, return different documents.\<close>

theorem compute_pnl_clock_counterexample:
  "compute_pnl 1700000000 [demo_buy, demo_sell] Map.empty \<noteq>
   compute_pnl 1700000001 [demo_buy, demo_sell] Map.empty"
  by code_simp

lemma round_half_even_of_int [simp]: "round_half_even (of_int n) = n"
  by (simp add: round_half_even_def)

lemma pair_round_0 [simp]: "pair_round 0 = 0"
  by (simp add: pair_round_def round_fixed_def round_half_even_def)

lemma pair_round_1 [simp]: "pair_round 1 = 1"
proof -
  have "round_half_even ((10::real) ^ 6) = 10 ^ 6"
    using round_half_even_of_int [of "10 ^ 6"] by simp
  then show ?thesis by (simp add: pair_round_def round_fixed_def)
qed

lemma pnl_step_portfolio_counts:
  "pf_trades_closed (portfolio (pnl_step marks st t)) =
     pf_trades_closed (portfolio st) + (case closing_pnl st t of None \<Rightarrow> 0 | Some p \<Rightarrow> 1)"
  "pf_wins (portfolio (pnl_step marks st t)) =
     pf_wins (portfolio st) +
       (case closing_pnl st t of None \<Rightarrow> 0 | Some p \<Rightarrow> if 0 \<le> p then 1 else 0)"
  "pf_losses (portfolio (pnl_step marks st t)) =
     pf_losses (portfolio st) +
       (case closing_pnl st t of None \<Rightarrow> 0 | Some p \<Rightarrow> if p < 0 then 1 else 0)"
  by (simp_all add: pnl_step_def closing_pnl_def Let_def)

lemma pnl_loop_portfolio_counts:
  "pf_trades_closed (portfolio (pnl_loop marks st ts)) =
     pf_trades_closed (portfolio st) + int (length (close_pnls marks st ts)) \<and>
   pf_wins (portfolio (pnl_loop marks st ts)) =
     pf_wins (portfolio st) + int (length (filter (\<lambda>p. 0 \<le> p) (close_pnls marks st ts))) \<and>
   pf_losses (portfolio (pnl_loop marks st ts)) =
     pf_losses (portfolio st) + int (length (filter (\<lambda>p. p < 0) (close_pnls marks st ts)))"
proof (induction ts arbitrary: st)
  case Nil
  show ?case by simp
next
  case (Cons t ts)
  show ?case
  proof (cases "closing_pnl st t")
    case None
    then show ?thesis
      using Cons.IH [of "pnl_step marks st t"] by (simp add: pnl_step_portfolio_counts)
  next
    case (Some p)
    then show ?thesis
      using Cons.IH [of "pnl_step marks st t"] by (simp add: pnl_step_portfolio_counts)
  qed
qed

lemma unrealized_step_portfolio:
  assumes "unrealized_step marks (pp, pf) item = Inr (pp', pf')"
  shows "pf_trades_closed pf' = pf_trades_closed pf \<and> pf_wins pf' = pf_wins pf \<and>
         pf_losses pf' = pf_losses pf"
proof -
  obtain pair pos where item: "item = (pair, pos)" by (cases item)
  show ?thesis
  proof (cases "0 < vol pos \<and> 0 < entry_px pos \<and> 0 < get_default (marks pair) 0")
    case True
    then show ?thesis using assms
      by (cases "map_of pp pair") (auto simp add: unrealized_step_def item Let_def)
  next
    case False
    have "unrealized_step marks (pp, pf) item = Inr (pp, pf)"
      unfolding unrealized_step_def item Let_def using False
      by (simp only: prod.case if_False)
    then show ?thesis using assms by simp
  qed
qed

lemma unrealized_loop_portfolio:
  "unrealized_loop marks (pp, pf) items = Inr (pp', pf') \<Longrightarrow>
     pf_trades_closed pf' = pf_trades_closed pf \<and> pf_wins pf' = pf_wins pf \<and>
     pf_losses pf' = pf_losses pf"
proof (induction items arbitrary: pp pf)
  case Nil
  then show ?case by simp
next
  case (Cons item items)
  show ?case
  proof (cases "unrealized_step marks (pp, pf) item")
    case (Inl e)
    then show ?thesis using Cons.prems by simp
  next
    case (Inr acc)
    obtain pp1 pf1 where acc: "acc = (pp1, pf1)" by (cases acc)
    have "unrealized_loop marks (pp1, pf1) items = Inr (pp', pf')"
      using Cons.prems Inr acc by simp
    from Cons.IH [OF this] unrealized_step_portfolio [OF Inr [unfolded acc]]
    show ?thesis by simp
  qed
qed

lemma set_update_subset: "set (AList.update k v al) \<subseteq> insert (k, v) (set al)"
  by (induction al) auto

lemma pnl_step_per_pair:
  "per_pair (pnl_step marks st t) =
     AList.update (t_pair t) (stats_of marks (pnl_step marks st t) (t_pair t)) (per_pair st)"
  by (simp add: pnl_step_def Let_def stats_of_def update_conv')

lemma stats_of_no_losses:
  "\<forall>ps \<in> snd ` set (per_pair st). pair_no_losses ps \<Longrightarrow> pair_no_losses (stats_of marks st k)"
proof (cases "map_of (per_pair st) k")
  case None
  then show ?thesis by (simp add: stats_of_def new_pair_stats_def pair_no_losses_def)
next
  case (Some ps)
  assume a: "\<forall>ps \<in> snd ` set (per_pair st). pair_no_losses ps"
  from Some have "(k, ps) \<in> set (per_pair st)" by (rule map_of_SomeD)
  then have "ps \<in> snd ` set (per_pair st)" by force
  with a have "pair_no_losses ps" by blast
  with Some show ?thesis by (simp add: stats_of_def)
qed

lemma pnl_step_stats_no_losses:
  assumes "pair_no_losses (stats_of marks st (t_pair t))"
    and "\<forall>p. closing_pnl st t = Some p \<longrightarrow> 0 \<le> p"
  shows "pair_no_losses (stats_of marks (pnl_step marks st t) (t_pair t))"
proof (cases "closing_pnl st t")
  case None
  then show ?thesis using assms(1)
    by (auto simp add: pnl_step_def closing_pnl_def Let_def stats_of_def update_conv'
        pair_no_losses_def split: if_splits)
next
  case (Some p)
  then have "0 \<le> p" using assms(2) by simp
  then show ?thesis using assms(1) Some
    by (auto simp add: pnl_step_def closing_pnl_def Let_def stats_of_def update_conv'
        pair_no_losses_def split: if_splits)
qed

lemma pnl_step_no_losses:
  assumes "\<forall>ps \<in> snd ` set (per_pair st). pair_no_losses ps"
    and "\<forall>p. closing_pnl st t = Some p \<longrightarrow> 0 \<le> p"
  shows "\<forall>ps \<in> snd ` set (per_pair (pnl_step marks st t)). pair_no_losses ps"
proof
  fix ps assume "ps \<in> snd ` set (per_pair (pnl_step marks st t))"
  then obtain k where "(k, ps) \<in> set (per_pair (pnl_step marks st t))" by force
  then have "(k, ps) \<in> insert (t_pair t, stats_of marks (pnl_step marks st t) (t_pair t))
                          (set (per_pair st))"
    using set_update_subset pnl_step_per_pair [of marks st t] by (metis subsetD)
  then show "pair_no_losses ps"
    using pnl_step_stats_no_losses [OF stats_of_no_losses [OF assms(1)] assms(2)] assms(1)
    by force
qed

lemma pnl_loop_no_losses:
  "\<forall>ps \<in> snd ` set (per_pair st). pair_no_losses ps \<Longrightarrow>
   \<forall>p \<in> set (close_pnls marks st ts). 0 \<le> p \<Longrightarrow>
   \<forall>ps \<in> snd ` set (per_pair (pnl_loop marks st ts)). pair_no_losses ps"
proof (induction ts arbitrary: st)
  case Nil
  then show ?case by simp
next
  case (Cons t ts)
  have c: "\<forall>p. closing_pnl st t = Some p \<longrightarrow> 0 \<le> p"
    using Cons.prems(2) by auto
  have r: "\<forall>p \<in> set (close_pnls marks (pnl_step marks st t) ts). 0 \<le> p"
    using Cons.prems(2) by auto
  from Cons.IH [OF pnl_step_no_losses [OF Cons.prems(1) c] r]
  show ?case by (simp only: pnl_loop_Cons)
qed

lemma unrealized_step_no_losses:
  assumes "unrealized_step marks (pp, pf) item = Inr (pp', pf')"
    and "\<forall>ps \<in> snd ` set pp. pair_no_losses ps"
  shows "\<forall>ps \<in> snd ` set pp'. pair_no_losses ps"
proof -
  obtain pair pos where item: "item = (pair, pos)" by (cases item)
  show ?thesis
  proof (cases "0 < vol pos \<and> 0 < entry_px pos \<and> 0 < get_default (marks pair) 0")
    case True
    show ?thesis
    proof (cases "map_of pp pair")
      case None
      then show ?thesis using assms(1) True by (simp add: unrealized_step_def item Let_def)
    next
      case (Some ps0)
      let ?new = "ps0\<lparr>pp_unrealized_pnl_usd := (get_default (marks pair) 0 - entry_px pos) * vol pos,
                       pp_open_position := True, pp_open_volume := vol pos,
                       pp_entry_price := entry_px pos,
                       pp_mark_price := get_default (marks pair) 0\<rparr>"
      have pp': "pp' = AList.update pair ?new pp"
        using assms(1) True Some by (simp add: unrealized_step_def item Let_def)
      from Some have "(pair, ps0) \<in> set pp" by (rule map_of_SomeD)
      then have "ps0 \<in> snd ` set pp" by force
      then have "pair_no_losses ps0" using assms(2) by blast
      then have n: "pair_no_losses ?new"
        by (simp add: pair_no_losses_def)
      show ?thesis
      proof
        fix ps assume "ps \<in> snd ` set pp'"
        then obtain k where "(k, ps) \<in> set pp'" by force
        then have "(k, ps) \<in> insert (pair, ?new) (set pp)"
          using set_update_subset [of pair ?new pp] pp' by blast
        then show "pair_no_losses ps" using n assms(2) by force
      qed
    qed
  next
    case False
    have "unrealized_step marks (pp, pf) item = Inr (pp, pf)"
      unfolding unrealized_step_def item Let_def using False
      by (simp only: prod.case if_False)
    then show ?thesis using assms by simp
  qed
qed

lemma unrealized_loop_no_losses:
  "unrealized_loop marks (pp, pf) items = Inr (pp', pf') \<Longrightarrow>
   \<forall>ps \<in> snd ` set pp. pair_no_losses ps \<Longrightarrow>
   \<forall>ps \<in> snd ` set pp'. pair_no_losses ps"
proof (induction items arbitrary: pp pf)
  case Nil
  then show ?case by simp
next
  case (Cons item items)
  show ?case
  proof (cases "unrealized_step marks (pp, pf) item")
    case (Inl e)
    then show ?thesis using Cons.prems by simp
  next
    case (Inr acc)
    obtain pp1 pf1 where acc: "acc = (pp1, pf1)" by (cases acc)
    have l: "unrealized_loop marks (pp1, pf1) items = Inr (pp', pf')"
      using Cons.prems Inr acc by simp
    from Cons.IH [OF l unrealized_step_no_losses [OF Inr [unfolded acc] Cons.prems(2)]]
    show ?thesis .
  qed
qed

lemma rollup_pair_no_losses:
  "pair_no_losses ps \<Longrightarrow>
     pp_wins (rollup_pair ps) = pp_trades_closed (rollup_pair ps) \<and>
     pp_losses (rollup_pair ps) = 0 \<and>
     pp_win_rate (rollup_pair ps) = (if 0 < pp_trades_closed (rollup_pair ps) then 1 else 0)"
  by (simp add: rollup_pair_def pair_no_losses_def Let_def)

lemma all_zero_filters:
  assumes "\<forall>p \<in> set ps. p = (0::real)"
  shows "filter (\<lambda>p. 0 \<le> p) ps = ps" and "filter (\<lambda>p. p < 0) ps = []"
  using assms by (induction ps) auto

text \<open>
  Claim C10, as the code has it. The portfolio's wins count the closes with a profit of
  zero or more, its losses the closes with a negative profit. When every close of the
  history breaks even, wins equal the closed trades and there is no loss, for the
  portfolio and for every pair; the win rate is 1 when there is at least one close,
  and 0 when there is none.
\<close>

theorem zero_pnl_close_is_a_win:
  "\<exists>d. compute_pnl now trades marks = Inr d \<and>
     pf_trades_closed (doc_portfolio d) = int (length (close_pnls marks pnl_init trades)) \<and>
     pf_wins (doc_portfolio d) =
       int (length (filter (\<lambda>p. 0 \<le> p) (close_pnls marks pnl_init trades))) \<and>
     pf_losses (doc_portfolio d) =
       int (length (filter (\<lambda>p. p < 0) (close_pnls marks pnl_init trades))) \<and>
     ((\<forall>p \<in> set (close_pnls marks pnl_init trades). p = 0) \<longrightarrow>
        pf_wins (doc_portfolio d) = pf_trades_closed (doc_portfolio d) \<and>
        pf_losses (doc_portfolio d) = 0 \<and>
        pf_win_rate (doc_portfolio d) =
          (if close_pnls marks pnl_init trades = [] then 0 else 1) \<and>
        (\<forall>ps \<in> snd ` set (doc_pairs d).
           pp_wins ps = pp_trades_closed ps \<and> pp_losses ps = 0 \<and>
           pp_win_rate ps = (if 0 < pp_trades_closed ps then 1 else 0)))"
proof -
  let ?st = "pnl_loop marks pnl_init trades"
  let ?cps = "close_pnls marks pnl_init trades"
  obtain d where d: "compute_pnl now trades marks = Inr d"
    using compute_pnl_total by blast
  then obtain pp pf where u: "unrealized_loop marks (per_pair ?st, portfolio ?st) (open_pos ?st) = Inr (pp, pf)"
    and dp: "doc_portfolio d = rollup_portfolio pf (max_dd ?st)"
    and dq: "doc_pairs d = map (\<lambda>(pair, ps). (pair, rollup_pair ps)) pp"
    by (auto simp add: compute_pnl_def Let_def split: sum.splits)
  note up = unrealized_loop_portfolio [OF u]
  note lp = pnl_loop_portfolio_counts [of marks pnl_init trades]
  have tc: "pf_trades_closed pf = int (length ?cps)"
    and w: "pf_wins pf = int (length (filter (\<lambda>p. 0 \<le> p) ?cps))"
    and l: "pf_losses pf = int (length (filter (\<lambda>p. p < 0) ?cps))"
    using up lp by (simp_all add: pnl_init_def)
  have c1: "pf_trades_closed (doc_portfolio d) = int (length ?cps)"
    and c2: "pf_wins (doc_portfolio d) = int (length (filter (\<lambda>p. 0 \<le> p) ?cps))"
    and c3: "pf_losses (doc_portfolio d) = int (length (filter (\<lambda>p. p < 0) ?cps))"
    by (simp_all add: dp rollup_portfolio_def Let_def tc w l)
  have c4: "pf_wins (doc_portfolio d) = pf_trades_closed (doc_portfolio d) \<and>
        pf_losses (doc_portfolio d) = 0 \<and>
        pf_win_rate (doc_portfolio d) = (if ?cps = [] then 0 else 1) \<and>
        (\<forall>ps \<in> snd ` set (doc_pairs d).
           pp_wins ps = pp_trades_closed ps \<and> pp_losses ps = 0 \<and>
           pp_win_rate ps = (if 0 < pp_trades_closed ps then 1 else 0))"
    if z: "\<forall>p \<in> set ?cps. p = 0"
  proof -
    note f = all_zero_filters [OF z]
    have a: "pf_wins (doc_portfolio d) = pf_trades_closed (doc_portfolio d)"
      "pf_losses (doc_portfolio d) = 0"
      by (simp_all add: c1 c2 c3 f)
    have wr: "pf_win_rate (doc_portfolio d) = (if ?cps = [] then 0 else 1)"
      by (simp add: dp rollup_portfolio_def Let_def tc w f)
    have nn: "\<forall>p \<in> set ?cps. 0 \<le> p" using z by auto
    have "\<forall>ps \<in> snd ` set (per_pair ?st). pair_no_losses ps"
      by (rule pnl_loop_no_losses [OF _ nn]) (simp add: pnl_init_def)
    from unrealized_loop_no_losses [OF u this]
    have inv: "\<forall>ps \<in> snd ` set pp. pair_no_losses ps" .
    have pairs: "\<forall>ps \<in> snd ` set (doc_pairs d).
           pp_wins ps = pp_trades_closed ps \<and> pp_losses ps = 0 \<and>
           pp_win_rate ps = (if 0 < pp_trades_closed ps then 1 else 0)"
    proof
      fix ps assume "ps \<in> snd ` set (doc_pairs d)"
      then obtain ps0 where "ps0 \<in> snd ` set pp" and "ps = rollup_pair ps0"
        unfolding dq by force
      then show "pp_wins ps = pp_trades_closed ps \<and> pp_losses ps = 0 \<and>
           pp_win_rate ps = (if 0 < pp_trades_closed ps then 1 else 0)"
        using inv rollup_pair_no_losses by blast
    qed
    from a wr pairs show ?thesis by blast
  qed
  from d c1 c2 c3 c4 show ?thesis by blast
qed

theorem zero_pnl_close_is_a_win_witness:
  "close_pnls Map.empty pnl_init [demo_buy, demo_sell_even] = [0] \<and>
   (\<exists>d. compute_pnl 1700000000 [demo_buy, demo_sell_even] Map.empty = Inr d \<and>
      pf_trades_closed (doc_portfolio d) = 1 \<and> pf_wins (doc_portfolio d) = 1 \<and>
      pf_losses (doc_portfolio d) = 0 \<and> pf_win_rate (doc_portfolio d) = 1)"
proof -
  have cp: "close_pnls Map.empty pnl_init [demo_buy, demo_sell_even] = [0]"
    by code_simp
  note th = zero_pnl_close_is_a_win [of 1700000000 "[demo_buy, demo_sell_even]" Map.empty,
      unfolded cp]
  then obtain d where d: "compute_pnl 1700000000 [demo_buy, demo_sell_even] Map.empty = Inr d"
    and c: "pf_trades_closed (doc_portfolio d) = int (length [0::real])"
      "pf_wins (doc_portfolio d) = int (length (filter (\<lambda>p. 0 \<le> p) [0::real]))"
      "pf_losses (doc_portfolio d) = int (length (filter (\<lambda>p. p < 0) [0::real]))"
    and w: "(\<forall>p \<in> set [0::real]. p = 0) \<longrightarrow>
        pf_win_rate (doc_portfolio d) = (if [0::real] = [] then 0 else 1)"
    by blast
  from w have "pf_win_rate (doc_portfolio d) = 1" by simp
  with d c cp show ?thesis by simp
qed

text \<open>
  A history of one buy has no close, so all its closes break even; its win rate is 0.
\<close>

theorem win_rate_without_closes_counterexample:
  "close_pnls Map.empty pnl_init [demo_buy] = [] \<and>
   map_option pf_trades_closed (portfolio_of (compute_pnl 1700000000 [demo_buy] Map.empty)) = Some 0 \<and>
   map_option pf_wins (portfolio_of (compute_pnl 1700000000 [demo_buy] Map.empty)) = Some 0 \<and>
   map_option pf_win_rate (portfolio_of (compute_pnl 1700000000 [demo_buy] Map.empty)) = Some 0 \<and>
   map_option pf_win_rate (portfolio_of (compute_pnl 1700000000 [demo_buy] Map.empty)) \<noteq> Some 1"
  by code_simp

section \<open>Properties of the ledger writes\<close>

text \<open>
  Claim C9, on the code. \<open>_save_state\<close> opens the canonical path for writing and then
  writes: between the two steps a reader finds an empty file there, which is neither
  the previous document nor the new one. \<open>write_bot_status\<close> writes a temporary file and
  renames it: at every point a reader finds the previous document or the new one.
\<close>

theorem save_state_exposes_truncated_file:
  "reader_views fs (save_state dumps state now) STATE_PATH =
     [fs STATE_PATH, fs STATE_PATH, Some [], Some (dumps state now)] \<and>
   reader_views fs (write_bot_status path text) path =
     [fs path, fs path, fs path, fs path, Some text]"
  by (simp add: reader_views_def save_state_def write_bot_status_def get_default_def)

end
